theory Spec2Isabelle
  imports Main "HOL-Library.Sublist" "HOL-Library.AList"
begin

section \<open>JavaScript strings\<close>

text \<open>
  Strings are lists of characters. The model covers ASCII text: \<open>toLowerCase\<close> maps
  the letters A to Z to a to z and leaves every other character alone, and \<open>trim\<close> removes
  the ASCII white space (tab, line feed, vertical tab, form feed, carriage return, space)
  at both ends.
\<close>

definition toLowerChar :: "char \<Rightarrow> char" where
  "toLowerChar c =
     (let n = (of_char c :: nat) in if 65 \<le> n \<and> n \<le> 90 then char_of (n + 32) else c)"

definition toLowerCase :: "string \<Rightarrow> string" where
  "toLowerCase s = map toLowerChar s"

definition isWhiteSpace :: "char \<Rightarrow> bool" where
  "isWhiteSpace c = ((of_char c :: nat) \<in> {9, 10, 11, 12, 13, 32})"

definition trim :: "string \<Rightarrow> string" where
  "trim s = rev (dropWhile isWhiteSpace (rev (dropWhile isWhiteSpace s)))"

text \<open>\<open>s.includes(k)\<close>: \<open>k\<close> occurs in \<open>s\<close> as a contiguous substring.\<close>

fun str_includes :: "string \<Rightarrow> string \<Rightarrow> bool" where
  "str_includes [] k = (k = [])"
| "str_includes (c # cs) k = (prefix k (c # cs) \<or> str_includes cs k)"

text \<open>\<open>xs.slice(-n)\<close>: the last \<open>n\<close> elements, all of them when there are fewer.\<close>

definition slice_last :: "nat \<Rightarrow> 'a list \<Rightarrow> 'a list" where
  "slice_last n xs = drop (length xs - n) xs"

text \<open>\<open>xs.join(sep)\<close> on a list of strings.\<close>

fun join :: "string \<Rightarrow> string list \<Rightarrow> string" where
  "join sep [] = []"
| "join sep [x] = x"
| "join sep (x # y # ys) = x @ sep @ join sep (y # ys)"

section \<open>JavaScript Map\<close>

text \<open>
  A \<open>Map\<close> keeps its entries in insertion order: \<open>set\<close> on a key that is present
  replaces the value in place, \<open>set\<close> on a new key appends the entry, \<open>delete\<close>
  removes the entry. It is an association list.
\<close>

type_synonym ('k, 'v) js_map = "('k \<times> 'v) list"

definition Map_get :: "('k, 'v) js_map \<Rightarrow> 'k \<Rightarrow> 'v option" where
  "Map_get m k = map_of m k"

definition Map_set :: "('k, 'v) js_map \<Rightarrow> 'k \<Rightarrow> 'v \<Rightarrow> ('k, 'v) js_map" where
  "Map_set m k v = AList.update k v m"

definition Map_delete :: "('k, 'v) js_map \<Rightarrow> 'k \<Rightarrow> ('k, 'v) js_map" where
  "Map_delete m k = AList.delete k m"

definition Map_keys :: "('k, 'v) js_map \<Rightarrow> 'k list" where
  "Map_keys m = map fst m"

definition Map_values :: "('k, 'v) js_map \<Rightarrow> 'v list" where
  "Map_values m = map snd m"

section \<open>Conversation manager: data\<close>

datatype securityLevel = Low | Medium | High | Critical

datatype detailLevel = Brief | Detailed | Comprehensive

datatype responseFormat = Text | Structured

record userPreferences =
  detailLevel :: detailLevel
  responseFormat :: responseFormat

record stateContext =
  currentTopic :: "string option"
  securityLevel :: "securityLevel option"
  previousQueries :: "string list"
  userPreferences :: "userPreferences option"

text \<open>
  \<open>lastActivity\<close> is the string \<open>new Date().toISOString()\<close> in the source, compared with
  \<open><\<close> and \<open>>\<close>. For the years 0000 to 9999 that format has a fixed width and its
  lexicographic order is the order of the instants, so the model keeps the instant itself,
  in milliseconds since the epoch.
\<close>

record ConversationState =
  conversationId :: string
  threadId :: "string option"
  userId :: string
  userName :: "string option"
  lastActivity :: int
  messageCount :: nat
  "context" :: stateContext

record ChannelAccount =
  account_id :: string
  account_name :: "string option"

text \<open>The fields of an incoming activity that the manager reads.\<close>

record Activity =
  activity_conversation :: string
  activity_from :: ChannelAccount
  activity_text :: "string option"
  activity_channelId :: string

record ConversationReference =
  ref_user :: "ChannelAccount option"
  ref_conversation :: string
  ref_channelId :: string

text \<open>\<open>TurnContext.getConversationReference\<close>: the reference copies the sender as its user.\<close>

definition TurnContext_getConversationReference :: "Activity \<Rightarrow> ConversationReference" where
  "TurnContext_getConversationReference a =
     \<lparr>ref_user = Some (activity_from a),
      ref_conversation = activity_conversation a,
      ref_channelId = activity_channelId a\<rparr>"

record quietHours =
  quiet_start :: string
  quiet_end :: string

record escalationRules =
  highPriority :: bool
  criticalOnly :: bool
  immediateForKeywords :: "string list"

record NotificationPreferences =
  pref_userId :: string
  channels :: "string list"
  alertTypes :: "string list"
  pref_quietHours :: "quietHours option"
  pref_escalationRules :: "escalationRules option"

text \<open>
  The three maps of \<open>ConversationManager\<close>. The map \<open>userPreferences\<close> of the source is
  \<open>notificationPreferences\<close> here, the name \<open>userPreferences\<close> being the field of the
  state's context.
\<close>

record ConversationManager =
  conversationStates :: "(string, ConversationState) js_map"
  conversationReferences :: "(string, ConversationReference) js_map"
  notificationPreferences :: "(string, NotificationPreferences) js_map"

definition newConversationManager :: ConversationManager where
  "newConversationManager =
     \<lparr>conversationStates = [], conversationReferences = [], notificationPreferences = []\<rparr>"

section \<open>Conversation manager: classification\<close>

definition criticalKeywords :: "string list" where
  "criticalKeywords =
     [''breach'', ''attack'', ''compromise'', ''malware'', ''ransomware'', ''critical'',
      ''urgent'', ''emergency'']"

definition highKeywords :: "string list" where
  "highKeywords =
     [''threat'', ''suspicious'', ''alert'', ''incident'', ''vulnerability'', ''exploit'']"

definition mediumKeywords :: "string list" where
  "mediumKeywords = [''security'', ''audit'', ''compliance'', ''policy'', ''review'']"

definition detectSecurityLevel :: "string \<Rightarrow> securityLevel" where
  "detectSecurityLevel query =
     (let lowerQuery = toLowerCase query in
      if list_ex (\<lambda>keyword. str_includes lowerQuery keyword) criticalKeywords then Critical
      else if list_ex (\<lambda>keyword. str_includes lowerQuery keyword) highKeywords then High
      else if list_ex (\<lambda>keyword. str_includes lowerQuery keyword) mediumKeywords then Medium
      else Low)"

definition topics :: "(string \<times> string list) list" where
  "topics =
     [(''incident response'', [''incident'', ''response'', ''containment'', ''recovery'']),
      (''threat analysis'', [''threat'', ''analysis'', ''intelligence'', ''ioc'', ''indicators'']),
      (''compliance'', [''compliance'', ''audit'', ''framework'', ''standards'', ''regulation'']),
      (''vulnerability management'', [''vulnerability'', ''patch'', ''cve'', ''scanning'']),
      (''access control'', [''access'', ''permissions'', ''authentication'', ''authorization'']),
      (''network security'', [''network'', ''firewall'', ''intrusion'', ''traffic'']),
      (''malware analysis'', [''malware'', ''virus'', ''trojan'', ''payload'', ''analysis''])]"

definition detectCurrentTopic :: "string \<Rightarrow> string" where
  "detectCurrentTopic query =
     (let lowerQuery = toLowerCase query in
      case find (\<lambda>(topic, keywords). list_ex (\<lambda>keyword. str_includes lowerQuery keyword) keywords)
             topics of
        Some (topic, keywords) \<Rightarrow> topic
      | None \<Rightarrow> ''general security'')"

section \<open>Conversation manager: operations\<close>

text \<open>The clock: the instant in milliseconds, and the local hour and minute of the day.\<close>

record Clock =
  now_ms :: int
  now_hours :: nat
  now_minutes :: nat

text \<open>
  \<open>updateConversationState\<close>. The clock is what \<open>new Date()\<close> reads. A thread id or
  a text that is absent or the empty string is falsy and skips its branch. The state object
  is mutated in place in the source and stored again under its key; the model returns the
  new state and the new manager.
\<close>

definition updateConversationState ::
  "Clock \<Rightarrow> Activity \<Rightarrow> string option \<Rightarrow> ConversationManager
     \<Rightarrow> ConversationState \<times> ConversationManager" where
  "updateConversationState clock a tid mgr =
     (let cid = activity_conversation a;
          st0 = (case Map_get (conversationStates mgr) cid of
                   None \<Rightarrow>
                     \<lparr>conversationId = cid, threadId = None,
                      userId = account_id (activity_from a),
                      userName = account_name (activity_from a),
                      lastActivity = now_ms clock, messageCount = 1,
                      context = \<lparr>currentTopic = None, securityLevel = None,
                                 previousQueries = [],
                                 userPreferences =
                                   Some \<lparr>detailLevel = Detailed, responseFormat = Text\<rparr>\<rparr>\<rparr>
                 | Some st \<Rightarrow> st\<lparr>lastActivity := now_ms clock, messageCount := messageCount st + 1\<rparr>);
          st1 = (case tid of
                   Some t \<Rightarrow> if t \<noteq> [] then st0\<lparr>threadId := Some t\<rparr> else st0
                 | None \<Rightarrow> st0);
          st2 = (case activity_text a of
                   Some t \<Rightarrow>
                     if t \<noteq> [] then
                       (let query = trim (toLowerCase t);
                            pushed = previousQueries (context st1) @ [query];
                            kept = (if length pushed > 5 then slice_last 5 pushed else pushed)
                        in st1\<lparr>context := (context st1)
                                 \<lparr>previousQueries := kept,
                                  securityLevel := Some (detectSecurityLevel query),
                                  currentTopic := Some (detectCurrentTopic query)\<rparr>\<rparr>)
                     else st1
                 | None \<Rightarrow> st1)
      in (st2,
          mgr\<lparr>conversationStates := Map_set (conversationStates mgr) cid st2,
              conversationReferences :=
                Map_set (conversationReferences mgr) cid (TurnContext_getConversationReference a)\<rparr>))"

definition getConversationState :: "ConversationManager \<Rightarrow> string \<Rightarrow> ConversationState option" where
  "getConversationState mgr cid = Map_get (conversationStates mgr) cid"

definition getConversationReference ::
  "ConversationManager \<Rightarrow> string \<Rightarrow> ConversationReference option" where
  "getConversationReference mgr cid = Map_get (conversationReferences mgr) cid"

definition getAllConversationReferences :: "ConversationManager \<Rightarrow> ConversationReference list" where
  "getAllConversationReferences mgr = Map_values (conversationReferences mgr)"

text \<open>
  \<open>isQuietHours\<close> and \<open>parseTimeString\<close>. A JavaScript number is \<open>NaN\<close> or a value;
  every comparison with \<open>NaN\<close> is false and arithmetic on it gives \<open>NaN\<close>. \<open>Number\<close> of a
  string of decimal digits, white space trimmed, is its value, and of the empty string 0.
  The model covers times written with digits, the \<open>HH:MM\<close> of the interface; it answers
  \<open>NaN\<close> for every other text, where the source also reads signs, fractions, exponents
  and hexadecimal.
\<close>

datatype jsnum = NaN | Num int

definition isDigit :: "char \<Rightarrow> bool" where
  "isDigit c = (48 \<le> (of_char c :: nat) \<and> (of_char c :: nat) \<le> 57)"

definition decimalValue :: "string \<Rightarrow> int" where
  "decimalValue s = foldl (\<lambda>acc c. acc * 10 + (int (of_char c) - 48)) 0 s"

definition Number :: "string \<Rightarrow> jsnum" where
  "Number s =
     (let t = trim s in
      if t = [] then Num 0
      else if list_all isDigit t then Num (decimalValue t)
      else NaN)"

fun split :: "char \<Rightarrow> string \<Rightarrow> string list" where
  "split d [] = [] # []"
| "split d (c # cs) =
     (if c = d then [] # split d cs
      else (case split d cs of [] \<Rightarrow> [c] # [] | x # xs \<Rightarrow> (c # x) # xs))"

definition js_le :: "jsnum \<Rightarrow> jsnum \<Rightarrow> bool" where
  "js_le a b = (case (a, b) of (Num x, Num y) \<Rightarrow> x \<le> y | _ \<Rightarrow> False)"

definition js_ge :: "jsnum \<Rightarrow> jsnum \<Rightarrow> bool" where
  "js_ge a b = (case (a, b) of (Num x, Num y) \<Rightarrow> x \<ge> y | _ \<Rightarrow> False)"

text \<open>\<open>hours * 100 + minutes\<close>; a part that is missing is \<open>undefined\<close>, hence \<open>NaN\<close>.\<close>

definition parseTimeString :: "string \<Rightarrow> jsnum" where
  "parseTimeString timeStr =
     (case map Number (split (CHR '':'') timeStr) of
        Num hours # Num minutes # rest \<Rightarrow> Num (hours * 100 + minutes)
      | _ \<Rightarrow> NaN)"

definition isQuietHours :: "Clock \<Rightarrow> quietHours \<Rightarrow> bool" where
  "isQuietHours clock qh =
     (let currentTime = Num (int (now_hours clock) * 100 + int (now_minutes clock));
          startTime = parseTimeString (quiet_start qh);
          endTime = parseTimeString (quiet_end qh)
      in if js_le startTime endTime
         then js_ge currentTime startTime \<and> js_le currentTime endTime
         else js_ge currentTime startTime \<or> js_le currentTime endTime)"

definition setUserPreferences ::
  "string \<Rightarrow> NotificationPreferences \<Rightarrow> ConversationManager \<Rightarrow> ConversationManager" where
  "setUserPreferences uid prefs mgr =
     mgr\<lparr>notificationPreferences := Map_set (notificationPreferences mgr) uid prefs\<rparr>"


definition shouldNotifyUser ::
  "Clock \<Rightarrow> ConversationManager \<Rightarrow> string \<Rightarrow> string \<Rightarrow> string \<Rightarrow> bool" where
  "shouldNotifyUser clock mgr uid alertType priority =
     (case Map_get (notificationPreferences mgr) uid of
        None \<Rightarrow> True
      | Some prefs \<Rightarrow>
          if (case pref_quietHours prefs of
                Some qh \<Rightarrow> isQuietHours clock qh \<and> priority \<noteq> ''critical''
              | None \<Rightarrow> False)
          then False
          else if length (alertTypes prefs) > 0 \<and> alertType \<notin> set (alertTypes prefs)
          then False
          else if (case pref_escalationRules prefs of
                     Some rules \<Rightarrow> criticalOnly rules \<and> priority \<noteq> ''critical''
                   | None \<Rightarrow> False)
          then False
          else True)"

definition detailLevelName :: "detailLevel \<Rightarrow> string" where
  "detailLevelName d =
     (case d of Brief \<Rightarrow> ''brief'' | Detailed \<Rightarrow> ''detailed'' | Comprehensive \<Rightarrow> ''comprehensive'')"

definition blankLine :: string where
  "blankLine = [CHR 0x0A, CHR 0x0A]"

definition topicLine :: "string \<Rightarrow> string" where
  "topicLine topic = blankLine @ ''Context: This conversation is focusing on '' @ topic @ ''.''"

definition recentLine :: "string list \<Rightarrow> string" where
  "recentLine queries =
     blankLine @ ''Recent discussion topics: '' @ join '', '' (slice_last 3 queries)"

definition preferenceLine :: "detailLevel \<Rightarrow> string" where
  "preferenceLine d =
     blankLine @ ''User preference: Provide '' @ detailLevelName d @ '' responses.''"

definition enhancePromptWithContext :: "ConversationManager \<Rightarrow> string \<Rightarrow> string \<Rightarrow> string" where
  "enhancePromptWithContext mgr prompt cid =
     (case Map_get (conversationStates mgr) cid of
        None \<Rightarrow> prompt
      | Some state \<Rightarrow>
          if length (previousQueries (context state)) = 0 then prompt
          else
            (let e1 = (case currentTopic (context state) of
                         Some topic \<Rightarrow> if topic \<noteq> [] then prompt @ topicLine topic else prompt
                       | None \<Rightarrow> prompt);
                 e2 = (if length (previousQueries (context state)) > 1
                       then e1 @ recentLine (previousQueries (context state)) else e1);
                 e3 = (case userPreferences (context state) of
                         Some p \<Rightarrow> e2 @ preferenceLine (detailLevel p)
                       | None \<Rightarrow> e2)
             in e3))"

text \<open>
  \<open>cleanupOldStates\<close>. The cutoff is the clock moved back by \<open>maxAgeHours\<close> hours
  (\<open>setHours\<close> on the local time; the model takes hours of 3600000 ms, that is, no change
  of the local offset in between). The loop walks the entries of the state map; deleting
  the entry it stands on leaves the entries still to come as they were.
\<close>

fun cleanupLoop ::
  "int \<Rightarrow> (string \<times> ConversationState) list \<Rightarrow> nat \<times> ConversationManager
     \<Rightarrow> nat \<times> ConversationManager" where
  "cleanupLoop cutoffTime [] acc = acc"
| "cleanupLoop cutoffTime ((cid, state) # entries) (cleanedCount, mgr) =
     (if lastActivity state < cutoffTime
      then cleanupLoop cutoffTime entries
             (cleanedCount + 1,
              mgr\<lparr>conversationStates := Map_delete (conversationStates mgr) cid,
                  conversationReferences := Map_delete (conversationReferences mgr) cid\<rparr>)
      else cleanupLoop cutoffTime entries (cleanedCount, mgr))"

definition cleanupOldStates ::
  "Clock \<Rightarrow> int \<Rightarrow> ConversationManager \<Rightarrow> nat \<times> ConversationManager" where
  "cleanupOldStates clock maxAgeHours mgr =
     cleanupLoop (now_ms clock - maxAgeHours * 3600000) (conversationStates mgr) (0, mgr)"

record Statistics =
  totalConversations :: nat
  activeConversations :: nat
  totalMessages :: nat
  averageMessagesPerConversation :: nat
  securityLevelDistribution :: "securityLevel \<Rightarrow> nat"

text \<open>\<open>Math.round\<close> of a quotient of naturals rounds a half upwards.\<close>

definition roundDiv :: "nat \<Rightarrow> nat \<Rightarrow> nat" where
  "roundDiv a b = (2 * a + b) div (2 * b)"

definition getStatistics :: "Clock \<Rightarrow> ConversationManager \<Rightarrow> Statistics" where
  "getStatistics clock mgr =
     (let states = Map_values (conversationStates mgr);
          total = length states;
          oneDayAgo = now_ms clock - 24 * 3600000;
          messages = sum_list (map messageCount states)
      in \<lparr>totalConversations = total,
          activeConversations = length (filter (\<lambda>state. lastActivity state > oneDayAgo) states),
          totalMessages = messages,
          averageMessagesPerConversation = (if total > 0 then roundDiv messages total else 0),
          securityLevelDistribution =
            (\<lambda>level. length (filter (\<lambda>state. securityLevel (context state) = Some level) states))\<rparr>)"

section \<open>Proactive notifier\<close>

datatype alertCategory = Threat | IncidentCategory | Compliance | Vulnerability | Access

record SecurityAlert =
  alert_id :: string
  alert_title :: string
  alert_description :: string
  severity :: securityLevel
  category :: alertCategory
  timestamp :: int
  source :: string
  affectedSystems :: "string list option"
  recommendedActions :: "string list option"

datatype notificationType = TypeAlert | TypeIncident | TypeUpdate | TypeReminder

record NotificationPayload =
  payload_type :: notificationType
  payload_alert :: "SecurityAlert option"
  payload_message :: "string option"
  payload_priority :: securityLevel

definition typeName :: "notificationType \<Rightarrow> string" where
  "typeName t =
     (case t of TypeAlert \<Rightarrow> ''alert'' | TypeIncident \<Rightarrow> ''incident''
      | TypeUpdate \<Rightarrow> ''update'' | TypeReminder \<Rightarrow> ''reminder'')"

definition levelName :: "securityLevel \<Rightarrow> string" where
  "levelName l =
     (case l of Low \<Rightarrow> ''low'' | Medium \<Rightarrow> ''medium'' | High \<Rightarrow> ''high''
      | Critical \<Rightarrow> ''critical'')"

text \<open>\<open>conversationReference.user?.id\<close>: nothing when the reference has no user.\<close>

definition referenceUserId :: "ConversationReference \<Rightarrow> string option" where
  "referenceUserId r = (case ref_user r of Some u \<Rightarrow> Some (account_id u) | None \<Rightarrow> None)"

text \<open>The first \<open>continue\<close> of the loop: a list of target users is given and is not empty,
  and the reference has no user id or one that is not in the list.\<close>

definition skippedByTarget :: "string list option \<Rightarrow> ConversationReference \<Rightarrow> bool" where
  "skippedByTarget targetUsers r =
     (case targetUsers of
        None \<Rightarrow> False
      | Some targets \<Rightarrow>
          length targets > 0 \<and>
          (case referenceUserId r of
             None \<Rightarrow> True
           | Some uid \<Rightarrow> uid = [] \<or> uid \<notin> set targets))"

text \<open>The second \<open>continue\<close>: the reference has a user id and the preferences of that user
  refuse the notification.\<close>

definition skippedByPreference ::
  "Clock \<Rightarrow> ConversationManager \<Rightarrow> NotificationPayload \<Rightarrow> ConversationReference \<Rightarrow> bool" where
  "skippedByPreference clock mgr payload r =
     (case referenceUserId r of
        None \<Rightarrow> False
      | Some uid \<Rightarrow>
          uid \<noteq> [] \<and>
          \<not> shouldNotifyUser clock mgr uid (typeName (payload_type payload))
              (levelName (payload_priority payload)))"

text \<open>
  The loop of \<open>sendNotification\<close>: for every reference that passes both checks it calls
  \<open>adapter.continueConversation\<close> and pushes the promise. The result is the list of these
  references, in order, each with the fate of its promise: the adapter is a function that
  says for a reference whether the delivery resolves. Every call is made before any promise
  is awaited.
\<close>

fun deliveryLoop ::
  "Clock \<Rightarrow> ConversationManager \<Rightarrow> (ConversationReference \<Rightarrow> bool) \<Rightarrow> NotificationPayload
     \<Rightarrow> string list option \<Rightarrow> ConversationReference list
     \<Rightarrow> (ConversationReference \<times> bool) list" where
  "deliveryLoop clock mgr adapter payload targetUsers [] = []"
| "deliveryLoop clock mgr adapter payload targetUsers (r # rs) =
     (if skippedByTarget targetUsers r
      then deliveryLoop clock mgr adapter payload targetUsers rs
      else if skippedByPreference clock mgr payload r
      then deliveryLoop clock mgr adapter payload targetUsers rs
      else (r, adapter r) # deliveryLoop clock mgr adapter payload targetUsers rs)"

datatype notifierLog = NoReferences | SentTo nat | SendError

text \<open>
  \<open>sendNotification\<close> returns nothing in the source (\<open>Promise<void>\<close>, and it never
  rejects: the rejection of \<open>Promise.all\<close> is caught and logged). What it does is the
  list of deliveries it started and the line it logs.
\<close>

record NotificationRun =
  deliveries :: "(ConversationReference \<times> bool) list"
  logged :: notifierLog

definition sendNotification ::
  "Clock \<Rightarrow> ConversationManager \<Rightarrow> (ConversationReference \<Rightarrow> bool) \<Rightarrow> NotificationPayload
     \<Rightarrow> string list option \<Rightarrow> NotificationRun" where
  "sendNotification clock mgr adapter payload targetUsers =
     (let conversationReferences = getAllConversationReferences mgr in
      if length conversationReferences = 0
      then \<lparr>deliveries = [], logged = NoReferences\<rparr>
      else
        (let deliveryPromises =
               deliveryLoop clock mgr adapter payload targetUsers conversationReferences
         in \<lparr>deliveries = deliveryPromises,
             logged = (if list_all snd deliveryPromises then SentTo (length deliveryPromises)
                       else SendError)\<rparr>))"

definition sendSecurityAlert ::
  "Clock \<Rightarrow> ConversationManager \<Rightarrow> (ConversationReference \<Rightarrow> bool) \<Rightarrow> SecurityAlert
     \<Rightarrow> string list option \<Rightarrow> NotificationRun" where
  "sendSecurityAlert clock mgr adapter alert targetUsers =
     sendNotification clock mgr adapter
       \<lparr>payload_type = TypeAlert, payload_alert = Some alert, payload_message = None,
        payload_priority = severity alert\<rparr>
       targetUsers"

definition sendMessage ::
  "Clock \<Rightarrow> ConversationManager \<Rightarrow> (ConversationReference \<Rightarrow> bool) \<Rightarrow> string
     \<Rightarrow> securityLevel \<Rightarrow> string list option \<Rightarrow> NotificationRun" where
  "sendMessage clock mgr adapter message priority targetUsers =
     sendNotification clock mgr adapter
       \<lparr>payload_type = TypeUpdate, payload_alert = None, payload_message = Some message,
        payload_priority = priority\<rparr>
       targetUsers"

section \<open>Agent connector\<close>

text \<open>An optional string is truthy when it is there and is not the empty string.\<close>

definition truthy :: "string option \<Rightarrow> bool" where
  "truthy t = (case t of Some s \<Rightarrow> s \<noteq> [] | None \<Rightarrow> False)"

text \<open>A call either throws an error, kept as its message, or returns a value.\<close>

datatype 'a result = Throw string | Return 'a

record AgentResponse =
  response_message :: string
  response_threadId :: string

text \<open>
  The AI backend, as one call of \<open>processPrompt\<close> sees it: the id of the thread that
  \<open>createThread\<close> returns, and for a thread id what \<open>createMessage\<close>,
  \<open>createAndPollRun\<close> and \<open>listMessages\<close> do. A run has a status and, when it failed, the
  message of its last error. The messages listed are the \<open>data\<close> array, each message the
  array of its content items; an item has a type and, when it carries a text, its value.
\<close>

record RunResult =
  run_status :: string
  run_lastError :: "string option"

record ContentItem =
  content_type :: string
  content_text :: "string option"

record Backend =
  createThread :: "string result"
  createMessage :: "string \<Rightarrow> string \<Rightarrow> unit result"
  createAndPollRun :: "string \<Rightarrow> RunResult result"
  listMessages :: "string \<Rightarrow> ContentItem list list result"

definition fallbackMessage :: string where
  "fallbackMessage =
     ''I'' @ [CHR 0x27] @ ''m so'' @ ''rry, I couldn'' @ [CHR 0x27]
     @ ''t process your request at the moment. Please try again later.''"

text \<open>The text of the first content item of the latest message, when it is a text item.\<close>

definition latestText :: "ContentItem list list \<Rightarrow> string option" where
  "latestText messages =
     (case messages of
        [] \<Rightarrow> None
      | latestMessage # _ \<Rightarrow>
          (case latestMessage of
             [] \<Rightarrow> None
           | content # _ \<Rightarrow> if content_type content = ''text'' then content_text content else None))"

text \<open>
  \<open>processPrompt\<close>: the response or the error it throws, and the thread cache afterwards.
  The \<open>catch\<close> of the source logs the error and throws it again.
\<close>

definition processPrompt ::
  "Backend \<Rightarrow> (string, string) js_map \<Rightarrow> string \<Rightarrow> string option
     \<Rightarrow> AgentResponse result \<times> (string, string) js_map" where
  "processPrompt backend threadCache prompt convId =
     (let cached = (case convId of
                      Some c \<Rightarrow> if c \<noteq> [] then Map_get threadCache c else None
                    | None \<Rightarrow> None);
          thread = (if truthy cached then Return ((case cached of Some tid \<Rightarrow> tid | None \<Rightarrow> []), threadCache)
                    else (case createThread backend of
                            Throw e \<Rightarrow> Throw e
                          | Return tid \<Rightarrow>
                              Return (tid,
                                (case convId of
                                   Some c \<Rightarrow>
                                     if c \<noteq> [] \<and> tid \<noteq> [] then Map_set threadCache c tid
                                     else threadCache
                                 | None \<Rightarrow> threadCache))))
      in case thread of
           Throw e \<Rightarrow> (Throw e, threadCache)
         | Return (thread_id, cache) \<Rightarrow>
             if thread_id = [] then (Throw ''Failed to create or retrieve thread ID'', cache)
             else
               (case createMessage backend thread_id prompt of
                  Throw e \<Rightarrow> (Throw e, cache)
                | Return u \<Rightarrow>
                    (case createAndPollRun backend thread_id of
                       Throw e \<Rightarrow> (Throw e, cache)
                     | Return agentRun \<Rightarrow>
                         (case (if run_status agentRun = ''completed''
                                then (case listMessages backend thread_id of
                                        Throw e \<Rightarrow> Throw e
                                      | Return messages \<Rightarrow> Return (latestText messages))
                                else Return None) of
                            Throw e \<Rightarrow> (Throw e, cache)
                          | Return (Some text) \<Rightarrow>
                              (Return \<lparr>response_message = text, response_threadId = thread_id\<rparr>,
                               cache)
                          | Return None \<Rightarrow>
                              if run_status agentRun = ''failed''
                              then (Throw (''Agent run failed: '' @
                                      (case run_lastError agentRun of
                                         Some m \<Rightarrow> if m \<noteq> [] then m else ''Unknown error''
                                       | None \<Rightarrow> ''Unknown error'')),
                                    cache)
                              else (Return \<lparr>response_message = fallbackMessage,
                                            response_threadId = thread_id\<rparr>,
                                    cache)))))"

section \<open>Teams bot\<close>













section \<open>HTTP endpoints\<close>

text \<open>A response body is a JSON object: its fields in order, with their values.\<close>

datatype json = JString string | JBool bool | JNumber nat

record HttpResponse =
  status :: nat
  body :: "(string \<times> json) list"
  headers :: "(string \<times> string) list"

definition jsonHeaders :: "(string \<times> string) list" where
  "jsonHeaders = [(''Content-Type'', ''application/json'')]"

text \<open>\<open>a || b\<close> on strings that may be absent: the first when it is truthy, else the second.\<close>

definition orElse :: "string option \<Rightarrow> string \<Rightarrow> string" where
  "orElse a b = (case a of Some x \<Rightarrow> if x \<noteq> [] then x else b | None \<Rightarrow> b)"

record BotConfiguration =
  MicrosoftAppId :: string
  MicrosoftAppPassword :: string
  MicrosoftAppType :: string
  MicrosoftAppTenantId :: string

text \<open>\<open>process.env\<close> is a function from names to values that may be absent.\<close>

definition getConfigFromEnvironment :: "(string \<Rightarrow> string option) \<Rightarrow> BotConfiguration result" where
  "getConfigFromEnvironment env =
     (let config =
            \<lparr>MicrosoftAppId = orElse (env ''MicrosoftAppId'') (orElse (env ''BOT_ID'') []),
             MicrosoftAppPassword =
               orElse (env ''MicrosoftAppPassword'') (orElse (env ''BOT_PASSWORD'') []),
             MicrosoftAppType = orElse (env ''MicrosoftAppType'') [],
             MicrosoftAppTenantId =
               orElse (env ''MicrosoftAppTenantId'') (orElse (env ''M365_TENANT_ID'') [])\<rparr>
      in if MicrosoftAppId config = [] \<or> MicrosoftAppPassword config = []
         then Throw (''Missing required bot configuration. Please set MicrosoftAppId and ''
                     @ ''MicrosoftAppPassword environment variables.'')
         else Return config)"

text \<open>The constructor of \<open>AgentConnector\<close>, as far as it reads the environment.\<close>

definition newAgentConnector :: "(string \<Rightarrow> string option) \<Rightarrow> unit result" where
  "newAgentConnector env =
     (if \<not> truthy (env ''PROJECT_CONNECTION_STRING'')
      then Throw ''PROJECT_CONNECTION_STRING environment variable is required''
      else if \<not> truthy (env ''AGENT_ID'')
      then Throw ''AGENT_ID environment variable is required''
      else Return ())"

text \<open>The constructor of \<open>BotInitializer\<close> builds the two bots, each with its own
  \<open>AgentConnector\<close>.\<close>

definition newBotInitializer :: "(string \<Rightarrow> string option) \<Rightarrow> BotConfiguration \<Rightarrow> unit result" where
  "newBotInitializer env config =
     (case newAgentConnector env of
        Throw e \<Rightarrow> Throw e
      | Return u \<Rightarrow> newAgentConnector env)"

text \<open>
  The module state of the function app: whether \<open>botInitializer\<close> has been set, and the
  process-wide conversation manager. What a handler does beyond its response is a list of
  effects: setting up the components, a prompt sent to the agent, a delivery started.
\<close>

record Server =
  botInitializer :: bool
  server_manager :: ConversationManager

datatype effect = InitializeComponents | AgentPrompt string | Deliver ConversationReference

definition initializeComponents ::
  "(string \<Rightarrow> string option) \<Rightarrow> Server \<Rightarrow> unit result \<times> effect list \<times> Server" where
  "initializeComponents env server =
     (if botInitializer server then (Return (), [], server)
      else
        (case getConfigFromEnvironment env of
           Throw e \<Rightarrow> (Throw e, [InitializeComponents], server)
         | Return config \<Rightarrow>
             (case newBotInitializer env config of
                Throw e \<Rightarrow> (Throw e, [InitializeComponents], server)
              | Return u \<Rightarrow>
                  (case newAgentConnector env of
                     Throw e \<Rightarrow>
                       (Throw e, [InitializeComponents], server\<lparr>botInitializer := True\<rparr>)
                   | Return u' \<Rightarrow>
                       (Return (), [InitializeComponents], server\<lparr>botInitializer := True\<rparr>)))))"

text \<open>\<open>request.json()\<close> gives the parsed body or throws.\<close>

datatype 'a parsedBody = BadJson string | Parsed 'a

record NotificationRequest =
  notif_prompt :: "string option"
  notif_title :: "string option"
  notif_notificationUrl :: "string option"
  notif_targetUsers :: "string list option"
  notif_targetChannels :: "string list option"

record SecurityAlertRequest =
  req_id :: "string option"
  req_title :: "string option"
  req_description :: "string option"
  req_severity :: "securityLevel option"
  req_category :: "alertCategory option"
  req_source :: "string option"
  req_affectedSystems :: "string list option"
  req_recommendedActions :: "string list option"
  req_targetUsers :: "string list option"

definition getStoredConversationReferences :: "ConversationReference list" where
  "getStoredConversationReferences = []"

text \<open>
  The loop of \<open>sendNotificationsToAllInstallations\<close>: each delivery is awaited inside its
  own \<open>try\<close>, counted when it resolves and logged when it throws.
\<close>

fun installationLoop ::
  "(ConversationReference \<Rightarrow> bool) \<Rightarrow> string list option \<Rightarrow> string list option
     \<Rightarrow> ConversationReference list \<Rightarrow> nat \<times> ConversationReference list" where
  "installationLoop adapter users chans [] = (0, [])"
| "installationLoop adapter users chans (r # rs) =
     (if (case users of
            Some us \<Rightarrow>
              length us > 0 \<and>
              (case referenceUserId r of Some uid \<Rightarrow> uid \<noteq> [] \<and> uid \<notin> set us | None \<Rightarrow> False)
          | None \<Rightarrow> False)
      then installationLoop adapter users chans rs
      else if (case chans of
                 Some cs \<Rightarrow> length cs > 0 \<and> ref_channelId r \<notin> set cs
               | None \<Rightarrow> False)
      then installationLoop adapter users chans rs
      else (case installationLoop adapter users chans rs of
              (sentCount, started) \<Rightarrow> ((if adapter r then sentCount + 1 else sentCount), r # started)))"

definition sendNotificationsToAllInstallations ::
  "(ConversationReference \<Rightarrow> bool) \<Rightarrow> string list option \<Rightarrow> string list option
     \<Rightarrow> nat \<times> ConversationReference list" where
  "sendNotificationsToAllInstallations adapter users chans =
     (let conversationReferences = getStoredConversationReferences in
      if length conversationReferences = 0 then (0, [])
      else installationLoop adapter users chans conversationReferences)"

definition notificationFailure :: "string \<Rightarrow> HttpResponse" where
  "notificationFailure e =
     \<lparr>status = 500,
      body = [(''success'', JBool False), (''message'', JString ''Failed to send notifications''),
              (''errorDetails'', JString e)],
      headers = jsonHeaders\<rparr>"

text \<open>
  \<open>httpTrigger\<close>, the handler of \<open>/api/notification\<close>: the response, the effects in order,
  and the module state afterwards. The card it builds from the agent's answer does not
  reach the response and is left out.
\<close>

definition httpTrigger ::
  "(string \<Rightarrow> string option) \<Rightarrow> Backend \<Rightarrow> (ConversationReference \<Rightarrow> bool) \<Rightarrow> Server
     \<Rightarrow> string \<Rightarrow> NotificationRequest parsedBody \<Rightarrow> HttpResponse \<times> effect list \<times> Server" where
  "httpTrigger env backend adapter server method requestBody =
     (case initializeComponents env server of
        (Throw e, started, server1) \<Rightarrow> (notificationFailure e, started, server1)
      | (Return u, started, server1) \<Rightarrow>
          if method \<noteq> ''POST''
          then (\<lparr>status = 405,
                 body = [(''error'',
                          JString ''Method not allowed. Only POST requests are supported.'')],
                 headers = jsonHeaders\<rparr>, started, server1)
          else
            (case requestBody of
               BadJson e \<Rightarrow> (notificationFailure e, started, server1)
             | Parsed request \<Rightarrow>
                 if \<not> truthy (notif_prompt request)
                 then (\<lparr>status = 400,
                        body = [(''error'',
                                 JString (''Missing required '' @ [CHR 0x27] @ ''prompt''
                                          @ [CHR 0x27] @ '' field in request body''))],
                        headers = jsonHeaders\<rparr>, started, server1)
                 else
                   (let p = orElse (notif_prompt request) [] in
                    case fst (processPrompt backend [] p None) of
                      Throw e \<Rightarrow> (notificationFailure e, started @ [AgentPrompt p], server1)
                    | Return agentResponse \<Rightarrow>
                        (case sendNotificationsToAllInstallations adapter (notif_targetUsers request)
                                (notif_targetChannels request) of
                           (recipientCount, delivered) \<Rightarrow>
                             (\<lparr>status = 200,
                               body = [(''success'', JBool True),
                                       (''message'', JString ''Notifications sent successfully''),
                                       (''recipientCount'', JNumber recipientCount)],
                               headers = jsonHeaders\<rparr>,
                              started @ [AgentPrompt p] @ map Deliver delivered,
                              server1)))))"

definition alertFailure :: "string \<Rightarrow> HttpResponse" where
  "alertFailure e =
     \<lparr>status = 500,
      body = [(''success'', JBool False), (''message'', JString ''Failed to send security alert''),
              (''errorDetails'', JString (if e \<noteq> [] then e else ''Unknown error''))],
      headers = jsonHeaders\<rparr>"

text \<open>The handler of \<open>/api/securityAlert\<close>.\<close>

definition securityAlertHandler ::
  "(string \<Rightarrow> string option) \<Rightarrow> Clock \<Rightarrow> (ConversationReference \<Rightarrow> bool) \<Rightarrow> Server
     \<Rightarrow> SecurityAlertRequest parsedBody \<Rightarrow> HttpResponse \<times> effect list \<times> Server" where
  "securityAlertHandler env clock adapter server requestBody =
     (case requestBody of
        BadJson e \<Rightarrow> (alertFailure e, [], server)
      | Parsed alertRequest \<Rightarrow>
          if \<not> truthy (req_id alertRequest) \<or> \<not> truthy (req_title alertRequest)
             \<or> \<not> truthy (req_description alertRequest)
          then (\<lparr>status = 400,
                 body = [(''success'', JBool False),
                         (''message'', JString ''Missing required fields: id, title, description'')],
                 headers = jsonHeaders\<rparr>, [], server)
          else
            (case initializeComponents env server of
               (Throw e, started, server1) \<Rightarrow> (alertFailure e, started, server1)
             | (Return u, started, server1) \<Rightarrow>
                 (let alert =
                        \<lparr>alert_id = orElse (req_id alertRequest) [],
                         alert_title = orElse (req_title alertRequest) [],
                         alert_description = orElse (req_description alertRequest) [],
                         severity = (case req_severity alertRequest of Some l \<Rightarrow> l | None \<Rightarrow> Medium),
                         category = (case req_category alertRequest of Some c \<Rightarrow> c | None \<Rightarrow> Threat),
                         timestamp = now_ms clock,
                         source = orElse (req_source alertRequest) ''Security System'',
                         affectedSystems = req_affectedSystems alertRequest,
                         recommendedActions = req_recommendedActions alertRequest\<rparr>;
                      sent = sendSecurityAlert clock (server_manager server1) adapter alert
                               (req_targetUsers alertRequest);
                      stats = getStatistics clock (server_manager server1)
                  in (\<lparr>status = 200,
                       body = [(''success'', JBool True),
                               (''message'', JString ''Security alert sent successfully''),
                               (''recipientCount'', JNumber (activeConversations stats)),
                               (''alertId'', JString (alert_id alert))],
                       headers = jsonHeaders\<rparr>,
                      started @ map Deliver (map fst (deliveries sent)),
                      server1))))"

section \<open>Histories of the conversation manager\<close>

text \<open>
  The manager is a process-wide object changed by three operations. A history is a list of
  them, applied in order; the managers a process can hold are the results of the histories
  that start from the new manager.
\<close>

datatype managerOp =
    Update Clock Activity "string option"
  | Cleanup Clock int
  | SetPreferences string NotificationPreferences

fun applyOp :: "managerOp \<Rightarrow> ConversationManager \<Rightarrow> ConversationManager" where
  "applyOp (Update clock a tid) mgr = snd (updateConversationState clock a tid mgr)"
| "applyOp (Cleanup clock maxAgeHours) mgr = snd (cleanupOldStates clock maxAgeHours mgr)"
| "applyOp (SetPreferences uid prefs) mgr = setUserPreferences uid prefs mgr"

definition run :: "managerOp list \<Rightarrow> ConversationManager \<Rightarrow> ConversationManager" where
  "run ops mgr = foldl (\<lambda>m op. applyOp op m) mgr ops"

fun isCleanup :: "managerOp \<Rightarrow> bool" where
  "isCleanup (Cleanup clock maxAgeHours) = True"
| "isCleanup _ = False"

fun textsFor :: "string \<Rightarrow> managerOp list \<Rightarrow> string option list" where
  "textsFor cid [] = []"
| "textsFor cid (Update clock a tid # ops) =
     (if activity_conversation a = cid then activity_text a # textsFor cid ops
      else textsFor cid ops)"
| "textsFor cid (_ # ops) = textsFor cid ops"

definition queryOf :: "string option \<Rightarrow> string" where
  "queryOf t = (case t of Some s \<Rightarrow> trim (toLowerCase s) | None \<Rightarrow> [])"

definition isOld :: "int \<Rightarrow> string \<times> ConversationState \<Rightarrow> bool" where
  "isOld cutoffTime entry = (lastActivity (snd entry) < cutoffTime)"

definition keptKey :: "string set \<Rightarrow> string \<times> 'v \<Rightarrow> bool" where
  "keptKey K entry = (fst entry \<notin> K)"

definition topicLabels :: "string list" where
  "topicLabels = map fst topics @ [''general security'']"

definition sessionInvariant :: "string \<times> ConversationState \<Rightarrow> bool" where
  "sessionInvariant entry =
     (conversationId (snd entry) = fst entry
      \<and> length (previousQueries (context (snd entry))) \<le> 5
      \<and> 1 \<le> messageCount (snd entry)
      \<and> (previousQueries (context (snd entry)) = []
           \<or> (\<exists>topic. currentTopic (context (snd entry)) = Some topic
                  \<and> topic \<in> set topicLabels))
      \<and> userPreferences (context (snd entry))
           = Some \<lparr>detailLevel = Detailed, responseFormat = Text\<rparr>)"

definition managerInvariant :: "ConversationManager \<Rightarrow> bool" where
  "managerInvariant mgr =
     (distinct (Map_keys (conversationStates mgr))
      \<and> Map_keys (conversationStates mgr) = Map_keys (conversationReferences mgr)
      \<and> list_all sessionInvariant (conversationStates mgr))"

section \<open>Example inputs\<close>

definition exampleActivity :: "string \<Rightarrow> string \<Rightarrow> string \<Rightarrow> Activity" where
  "exampleActivity cid uid txt =
     \<lparr>activity_conversation = cid,
      activity_from = \<lparr>account_id = uid, account_name = None\<rparr>,
      activity_text = Some txt,
      activity_channelId = ''msteams''\<rparr>"

definition exampleClock :: "int \<Rightarrow> Clock" where
  "exampleClock t = \<lparr>now_ms = t, now_hours = 12, now_minutes = 0\<rparr>"

definition sixMessages :: "managerOp list" where
  "sixMessages =
     [Update (exampleClock 1) (exampleActivity ''c1'' ''u1'' ''One'') None,
      Update (exampleClock 2) (exampleActivity ''c1'' ''u1'' ''Two'') None,
      Update (exampleClock 3) (exampleActivity ''c2'' ''u2'' ''Other'') None,
      Update (exampleClock 4) (exampleActivity ''c1'' ''u1'' ''Three'') None,
      Update (exampleClock 5) (exampleActivity ''c1'' ''u1'' ''Four'') None,
      Update (exampleClock 6) (exampleActivity ''c1'' ''u1'' ''Five'') None,
      Update (exampleClock 7) (exampleActivity ''c1'' ''u1'' '' Six '') None]"

definition twoUpdates :: "managerOp list" where
  "twoUpdates =
     [Update (exampleClock 1000) (exampleActivity ''old'' ''u1'' ''hello'') None,
      Update (exampleClock 90000000) (exampleActivity ''new'' ''u2'' ''hello'') None]"

definition twoSessions :: ConversationManager where
  "twoSessions = run twoUpdates newConversationManager"

definition laterClock :: Clock where
  "laterClock = exampleClock 90000000"

definition nightHours :: quietHours where
  "nightHours = \<lparr>quiet_start = ''22:00'', quiet_end = ''06:00''\<rparr>"

definition nightPrefs :: NotificationPreferences where
  "nightPrefs =
     \<lparr>pref_userId = ''u1'', channels = [], alertTypes = [],
      pref_quietHours = Some nightHours, pref_escalationRules = None\<rparr>"

definition incidentOnlyPrefs :: NotificationPreferences where
  "incidentOnlyPrefs =
     \<lparr>pref_userId = ''u2'', channels = [], alertTypes = [''incident''],
      pref_quietHours = None, pref_escalationRules = None\<rparr>"

definition criticalOnlyRules :: escalationRules where
  "criticalOnlyRules = \<lparr>highPriority = False, criticalOnly = True, immediateForKeywords = []\<rparr>"

definition criticalOnlyPrefs :: NotificationPreferences where
  "criticalOnlyPrefs =
     \<lparr>pref_userId = ''u3'', channels = [], alertTypes = [],
      pref_quietHours = None, pref_escalationRules = Some criticalOnlyRules\<rparr>"

definition preferenceManager :: ConversationManager where
  "preferenceManager =
     setUserPreferences ''u3'' criticalOnlyPrefs
       (setUserPreferences ''u2'' incidentOnlyPrefs
          (setUserPreferences ''u1'' nightPrefs newConversationManager))"

definition clockAt :: "nat \<Rightarrow> nat \<Rightarrow> Clock" where
  "clockAt h m = \<lparr>now_ms = 0, now_hours = h, now_minutes = m\<rparr>"

definition anonymousReference :: ConversationReference where
  "anonymousReference = \<lparr>ref_user = None, ref_conversation = ''c0'', ref_channelId = ''msteams''\<rparr>"

definition userReference :: "string \<Rightarrow> string \<Rightarrow> ConversationReference" where
  "userReference cid uid =
     \<lparr>ref_user = Some \<lparr>account_id = uid, account_name = None\<rparr>,
      ref_conversation = cid, ref_channelId = ''msteams''\<rparr>"

definition fanoutManager :: ConversationManager where
  "fanoutManager =
     preferenceManager
       \<lparr>conversationReferences :=
          [(''c0'', anonymousReference), (''c1'', userReference ''c1'' ''u1''),
           (''c9'', userReference ''c9'' [])]\<rparr>"

definition highUpdate :: NotificationPayload where
  "highUpdate =
     \<lparr>payload_type = TypeUpdate, payload_alert = None, payload_message = Some ''patch tonight'',
      payload_priority = High\<rparr>"

definition topicOf :: "ConversationManager \<Rightarrow> string \<Rightarrow> string option" where
  "topicOf mgr cid =
     (case getConversationState mgr cid of
        Some state \<Rightarrow> currentTopic (context state)
      | None \<Rightarrow> None)"

definition oneHello :: ConversationManager where
  "oneHello =
     run [Update (exampleClock 1000) (exampleActivity ''c1'' ''u1'' ''hello'') None]
       newConversationManager"

definition generalTopicManager :: ConversationManager where
  "generalTopicManager =
     \<lparr>conversationStates =
        [(''c1'',
          \<lparr>conversationId = ''c1'', threadId = None, userId = ''u1'', userName = None,
           lastActivity = 1000, messageCount = 1,
           context = \<lparr>currentTopic = Some ''general'', securityLevel = Some Low,
                      previousQueries = [''hello''],
                      userPreferences =
                        Some \<lparr>detailLevel = Detailed, responseFormat = Text\<rparr>\<rparr>\<rparr>)],
      conversationReferences = [(''c1'', userReference ''c1'' ''u1'')],
      notificationPreferences = []\<rparr>"

definition twoQuestions :: ConversationManager where
  "twoQuestions =
     run [Update (exampleClock 1000) (exampleActivity ''c1'' ''u1'' ''Any malware today?'') None,
          Update (exampleClock 2000) (exampleActivity ''c1'' ''u1'' ''And the firewall?'') None]
       newConversationManager"

definition failingThreadBackend :: Backend where
  "failingThreadBackend =
     \<lparr>createThread = Throw ''service unavailable'',
      createMessage = (\<lambda>t p. Return ()),
      createAndPollRun = (\<lambda>t. Return \<lparr>run_status = ''completed'', run_lastError = None\<rparr>),
      listMessages = (\<lambda>t. Return [])\<rparr>"





definition emptyEnvironment :: "string \<Rightarrow> string option" where
  "emptyEnvironment name = None"

definition fullEnvironment :: "string \<Rightarrow> string option" where
  "fullEnvironment name =
     (if name \<in> set [''MicrosoftAppId'', ''MicrosoftAppPassword'', ''PROJECT_CONNECTION_STRING'',
                      ''AGENT_ID'']
      then Some ''configured'' else None)"

definition alwaysDelivers :: "ConversationReference \<Rightarrow> bool" where
  "alwaysDelivers r = True"

definition deliversExcept :: "string \<Rightarrow> ConversationReference \<Rightarrow> bool" where
  "deliversExcept cid r = (ref_conversation r \<noteq> cid)"

definition threeSessions :: ConversationManager where
  "threeSessions =
     run [Update (exampleClock 1000) (exampleActivity ''c1'' ''u1'' ''hello'') None,
          Update (exampleClock 1000) (exampleActivity ''c2'' ''u2'' ''hello'') None,
          Update (exampleClock 1000) (exampleActivity ''c3'' ''u3'' ''hello'') None]
       newConversationManager"

definition freshServer :: Server where
  "freshServer = \<lparr>botInitializer = False, server_manager = newConversationManager\<rparr>"

definition runningServer :: "ConversationManager \<Rightarrow> Server" where
  "runningServer mgr = \<lparr>botInitializer = True, server_manager = mgr\<rparr>"

definition alertWithoutId :: SecurityAlertRequest where
  "alertWithoutId =
     \<lparr>req_id = None, req_title = Some ''T'', req_description = Some ''D'', req_severity = None,
      req_category = None, req_source = None, req_affectedSystems = None,
      req_recommendedActions = None, req_targetUsers = None\<rparr>"

definition alertA1 :: SecurityAlertRequest where
  "alertA1 = alertWithoutId\<lparr>req_id := Some ''a1''\<rparr>"

definition notificationWithoutPrompt :: NotificationRequest where
  "notificationWithoutPrompt =
     \<lparr>notif_prompt = None, notif_title = Some ''Heads up'', notif_notificationUrl = None,
      notif_targetUsers = None, notif_targetChannels = None\<rparr>"

definition missingPromptBody :: "(string \<times> json) list" where
  "missingPromptBody =
     [(''error'',
       JString (''Missing required '' @ [CHR 0x27] @ ''prompt'' @ [CHR 0x27]
                @ '' field in request body''))]"

definition missingAlertFieldsBody :: "(string \<times> json) list" where
  "missingAlertFieldsBody =
     [(''success'', JBool False),
      (''message'', JString ''Missing required fields: id, title, description'')]"

section \<open>Strings: facts\<close>

lemma str_includes_iff: "str_includes s k \<longleftrightarrow> (\<exists>pre post. s = pre @ k @ post)"
proof (induction s)
  case Nil
  then show ?case by auto
next
  case (Cons c cs)
  show ?case
  proof
    assume "str_includes (c # cs) k"
    then consider "prefix k (c # cs)" | "str_includes cs k" by auto
    then show "\<exists>pre post. c # cs = pre @ k @ post"
    proof cases
      case 1
      then obtain post where "c # cs = k @ post" by (auto simp: prefix_def)
      then have "c # cs = [] @ k @ post" by simp
      then show ?thesis by blast
    next
      case 2
      with Cons.IH obtain pre post where "cs = pre @ k @ post" by blast
      then have "c # cs = (c # pre) @ k @ post" by simp
      then show ?thesis by blast
    qed
  next
    assume "\<exists>pre post. c # cs = pre @ k @ post"
    then obtain pre post where eq: "c # cs = pre @ k @ post" by blast
    show "str_includes (c # cs) k"
    proof (cases pre)
      case Nil
      with eq have "prefix k (c # cs)" by (simp add: prefix_def)
      then show ?thesis by simp
    next
      case (Cons p ps)
      with eq have "cs = ps @ k @ post" by simp
      with Cons.IH have "str_includes cs k" by blast
      then show ?thesis by simp
    qed
  qed
qed

lemma toLowerChar_idem: "toLowerChar (toLowerChar c) = toLowerChar c"
proof (cases "65 \<le> (of_char c :: nat) \<and> (of_char c :: nat) \<le> 90")
  case True
  then have "(of_char (char_of (of_char c + 32 :: nat)) :: nat) = of_char c + 32"
    by (simp add: of_char_of)
  with True show ?thesis by (simp add: toLowerChar_def Let_def)
next
  case False
  then show ?thesis by (auto simp: toLowerChar_def Let_def)
qed

lemma toLowerCase_idem: "toLowerCase (toLowerCase s) = toLowerCase s"
  by (simp add: toLowerCase_def toLowerChar_idem)

section \<open>Conversation manager: facts\<close>

lemma run_snoc: "run (ops @ [op]) mgr = applyOp op (run ops mgr)"
  by (simp add: run_def)

lemma textsFor_append: "textsFor cid (xs @ ys) = textsFor cid xs @ textsFor cid ys"
  by (induction cid xs rule: textsFor.induct) auto

lemma slice_last_cap: "(if length zs > n then slice_last n zs else zs) = slice_last n zs"
  by (simp add: slice_last_def)

lemma slice_last_step: "slice_last 5 (slice_last 5 xs @ [q]) = slice_last 5 (xs @ [q])"
proof (cases "5 \<le> length xs")
  case True
  then have "Suc (length xs - 5) = length xs - 4" by arith
  with True show ?thesis by (simp add: slice_last_def)
next
  case False
  then show ?thesis by (simp add: slice_last_def)
qed

lemma slice_last_length: "length (slice_last n xs) = min n (length xs)"
  by (auto simp: slice_last_def)

lemma get_after_update:
  "getConversationState (snd (updateConversationState clock a tid mgr)) cid =
     (if cid = activity_conversation a then Some (fst (updateConversationState clock a tid mgr))
      else getConversationState mgr cid)"
  by (simp add: updateConversationState_def getConversationState_def Map_get_def Map_set_def
      Let_def update_conv')

lemma update_fresh:
  assumes "getConversationState mgr (activity_conversation a) = None" "truthy (activity_text a)"
  shows "messageCount (fst (updateConversationState clock a tid mgr)) = 1
       \<and> previousQueries (context (fst (updateConversationState clock a tid mgr)))
           = [queryOf (activity_text a)]"
  using assms
  by (auto simp: updateConversationState_def getConversationState_def Let_def truthy_def
      queryOf_def slice_last_def split: option.splits)

lemma update_existing:
  assumes "getConversationState mgr (activity_conversation a) = Some st" "truthy (activity_text a)"
  shows "messageCount (fst (updateConversationState clock a tid mgr)) = messageCount st + 1
       \<and> previousQueries (context (fst (updateConversationState clock a tid mgr)))
           = slice_last 5 (previousQueries (context st) @ [queryOf (activity_text a)])"
  using assms slice_last_cap [of 5 "previousQueries (context st) @ [queryOf (activity_text a)]"]
  by (auto simp: updateConversationState_def getConversationState_def Let_def truthy_def
      queryOf_def split: option.splits)

lemma get_after_setprefs:
  "getConversationState (setUserPreferences uid p mgr) cid = getConversationState mgr cid"
  by (simp add: setUserPreferences_def getConversationState_def)

lemma count_and_queries:
  assumes "\<forall>op \<in> set ops. \<not> isCleanup op"
      and "\<forall>t \<in> set (textsFor cid ops). truthy t"
      and "getConversationState mgr0 cid = None"
  shows "(textsFor cid ops = [] \<longrightarrow> getConversationState (run ops mgr0) cid = None)
       \<and> (textsFor cid ops \<noteq> [] \<longrightarrow>
            (\<exists>st. getConversationState (run ops mgr0) cid = Some st
                \<and> messageCount st = length (textsFor cid ops)
                \<and> previousQueries (context st) = slice_last 5 (map queryOf (textsFor cid ops))))"
  using assms
proof (induction ops rule: rev_induct)
  case Nil
  then show ?case by (simp add: run_def)
next
  case (snoc op ops)
  then have IH: "(textsFor cid ops = [] \<longrightarrow> getConversationState (run ops mgr0) cid = None)
       \<and> (textsFor cid ops \<noteq> [] \<longrightarrow>
            (\<exists>st. getConversationState (run ops mgr0) cid = Some st
                \<and> messageCount st = length (textsFor cid ops)
                \<and> previousQueries (context st) = slice_last 5 (map queryOf (textsFor cid ops))))"
    by (simp add: textsFor_append)
  show ?case
  proof (cases op)
    case (Update clock a tid)
    show ?thesis
    proof (cases "activity_conversation a = cid")
      case False
      with Update IH show ?thesis
        by (simp add: run_snoc textsFor_append get_after_update)
    next
      case True
      with Update snoc.prems have tr: "truthy (activity_text a)"
        by (simp add: textsFor_append)
      have tf: "textsFor cid (ops @ [op]) = textsFor cid ops @ [activity_text a]"
        using Update True by (simp add: textsFor_append)
      show ?thesis
      proof (cases "textsFor cid ops = []")
        case True
        with IH have "getConversationState (run ops mgr0) (activity_conversation a) = None"
          using \<open>activity_conversation a = cid\<close> by simp
        from update_fresh [OF this tr, of clock tid] show ?thesis
          using Update True tf \<open>activity_conversation a = cid\<close>
          by (simp add: run_snoc get_after_update slice_last_def)
      next
        case False
        with IH obtain st where st: "getConversationState (run ops mgr0) cid = Some st"
          "messageCount st = length (textsFor cid ops)"
          "previousQueries (context st) = slice_last 5 (map queryOf (textsFor cid ops))"
          by blast
        from st(1) have "getConversationState (run ops mgr0) (activity_conversation a) = Some st"
          using \<open>activity_conversation a = cid\<close> by simp
        from update_existing [OF this tr, of clock tid] show ?thesis
          using Update tf st \<open>activity_conversation a = cid\<close> slice_last_step
          by (simp add: run_snoc get_after_update Let_def)
      qed
    qed
  next
    case (Cleanup clock h)
    with snoc.prems show ?thesis by simp
  next
    case (SetPreferences uid p)
    with IH show ?thesis by (simp add: run_snoc textsFor_append get_after_setprefs)
  qed
qed

lemma Map_delete_filter: "Map_delete m k = filter (keptKey {k}) m"
  by (induction m) (auto simp: Map_delete_def keptKey_def)

lemma filter_keptKey: "filter (keptKey K) (filter (keptKey {k}) m) = filter (keptKey (insert k K)) m"
  by (induction m) (auto simp: keptKey_def)

lemma cleanupLoop_result:
  "cleanupLoop cutoffTime entries (n, mgr) =
     (n + length (filter (isOld cutoffTime) entries),
      mgr\<lparr>conversationStates :=
            filter (keptKey (fst ` set (filter (isOld cutoffTime) entries))) (conversationStates mgr),
          conversationReferences :=
            filter (keptKey (fst ` set (filter (isOld cutoffTime) entries)))
              (conversationReferences mgr)\<rparr>)"
proof (induction entries arbitrary: n mgr)
  case Nil
  then show ?case by (simp add: keptKey_def)
next
  case (Cons e entries)
  obtain cid state where e: "e = (cid, state)" by (cases e)
  show ?case
  proof (cases "lastActivity state < cutoffTime")
    case True
    then show ?thesis
      unfolding e by (simp add: Cons.IH isOld_def Map_delete_filter keptKey_def)
  next
    case False
    then show ?thesis
      unfolding e by (simp add: Cons.IH isOld_def)
  qed
qed



lemma set_update_subset: "set (AList.update k v al) \<subseteq> insert (k, v) (set al)"
  by (induction al) auto

lemma keys_filter_keptKey: "map fst (filter (keptKey K) m) = filter (\<lambda>k. k \<notin> K) (map fst m)"
  by (induction m) (auto simp: keptKey_def)

lemma invariant_cleanup:
  assumes "managerInvariant mgr"
  shows "managerInvariant (snd (cleanupOldStates clock h mgr))"
proof -
  let ?K = "fst ` set (filter (isOld (now_ms clock - h * 3600000)) (conversationStates mgr))"
  have r: "snd (cleanupOldStates clock h mgr) =
     mgr\<lparr>conversationStates := filter (keptKey ?K) (conversationStates mgr),
         conversationReferences := filter (keptKey ?K) (conversationReferences mgr)\<rparr>"
    by (simp add: cleanupOldStates_def cleanupLoop_result)
  show ?thesis
    using assms unfolding r managerInvariant_def Map_keys_def
    by (auto simp: keys_filter_keptKey list_all_iff distinct_map_filter)
qed

lemma detectCurrentTopic_label: "detectCurrentTopic q \<in> set topicLabels"
proof (cases "find (\<lambda>(topic, keywords). list_ex (\<lambda>keyword. str_includes (toLowerCase q) keyword) keywords) topics")
  case None
  then show ?thesis by (simp add: detectCurrentTopic_def topicLabels_def)
next
  case (Some e)
  then have "e \<in> set topics" by (auto simp: find_Some_iff in_set_conv_nth)
  then have "fst e \<in> set (map fst topics)" by simp
  with Some show ?thesis
    by (cases e) (simp add: detectCurrentTopic_def topicLabels_def)
qed

lemma update_state_facts:
  assumes "list_all sessionInvariant (conversationStates mgr)"
  shows "sessionInvariant (activity_conversation a, fst (updateConversationState clock a tid mgr))"
proof (cases "Map_get (conversationStates mgr) (activity_conversation a)")
  case None
  then show ?thesis
    by (auto simp: updateConversationState_def Let_def slice_last_def sessionInvariant_def
        detectCurrentTopic_label split: option.splits)
next
  case (Some st)
  then have "(activity_conversation a, st) \<in> set (conversationStates mgr)"
    by (simp add: Map_get_def map_of_SomeD)
  with assms have "sessionInvariant (activity_conversation a, st)"
    by (auto simp: list_all_iff)
  with Some show ?thesis
    by (auto simp: updateConversationState_def Let_def slice_last_def sessionInvariant_def
        detectCurrentTopic_label split: option.splits)
qed

lemma invariant_update:
  assumes "managerInvariant mgr"
  shows "managerInvariant (snd (updateConversationState clock a tid mgr))"
proof -
  let ?st = "fst (updateConversationState clock a tid mgr)"
  let ?cid = "activity_conversation a"
  have r: "snd (updateConversationState clock a tid mgr) =
     mgr\<lparr>conversationStates := AList.update ?cid ?st (conversationStates mgr),
         conversationReferences :=
           AList.update ?cid (TurnContext_getConversationReference a) (conversationReferences mgr)\<rparr>"
    by (simp add: updateConversationState_def Let_def Map_set_def)
  from assms have facts: "sessionInvariant (?cid, ?st)"
    by (intro update_state_facts) (auto simp: managerInvariant_def)
  have sub: "set (AList.update ?cid ?st (conversationStates mgr))
               \<subseteq> insert (?cid, ?st) (set (conversationStates mgr))"
    by (rule set_update_subset)
  show ?thesis
    using assms facts sub unfolding r managerInvariant_def Map_keys_def
    by (auto simp: update_keys distinct_update list_all_iff)
qed

lemma invariant_setprefs:
  "managerInvariant mgr \<Longrightarrow> managerInvariant (setUserPreferences uid p mgr)"
  by (auto simp: managerInvariant_def setUserPreferences_def)

lemma invariant_run: "managerInvariant mgr \<Longrightarrow> managerInvariant (run ops mgr)"
proof (induction ops rule: rev_induct)
  case Nil
  then show ?case by (simp add: run_def)
next
  case (snoc op ops)
  then show ?case
    by (cases op) (simp_all add: run_snoc invariant_update invariant_cleanup invariant_setprefs)
qed

lemma invariant_new: "managerInvariant newConversationManager"
  by (simp add: managerInvariant_def newConversationManager_def Map_keys_def)





lemma invariant_same_keys:
  "managerInvariant mgr \<Longrightarrow>
   Map_keys (conversationStates mgr) = Map_keys (conversationReferences mgr)"
  unfolding managerInvariant_def by blast

lemma invariant_distinct_keys:
  "managerInvariant mgr \<Longrightarrow> distinct (Map_keys (conversationStates mgr))"
  unfolding managerInvariant_def by blast

lemma Map_get_None_iff: "Map_get m k = None \<longleftrightarrow> k \<notin> set (Map_keys m)"
  by (simp add: Map_get_def Map_keys_def map_of_eq_None_iff)

lemma update_keys_member:
  "activity_conversation a \<in> set (Map_keys (conversationStates (snd (updateConversationState clock a tid mgr))))
   \<and> activity_conversation a \<in> set (Map_keys (conversationReferences (snd (updateConversationState clock a tid mgr))))"
  by (simp add: updateConversationState_def Let_def Map_set_def Map_keys_def update_keys)

lemma cleanup_keys:
  "Map_keys (conversationStates (snd (cleanupOldStates clock h mgr)))
     = filter (\<lambda>k. k \<notin> fst ` set (filter (isOld (now_ms clock - h * 3600000)) (conversationStates mgr)))
         (Map_keys (conversationStates mgr))
   \<and> Map_keys (conversationReferences (snd (cleanupOldStates clock h mgr)))
     = filter (\<lambda>k. k \<notin> fst ` set (filter (isOld (now_ms clock - h * 3600000)) (conversationStates mgr)))
         (Map_keys (conversationReferences mgr))"
  unfolding cleanupOldStates_def cleanupLoop_result Map_keys_def
  by (simp add: keys_filter_keptKey)

lemma sixMessages_texts:
  "textsFor ''c1'' sixMessages =
     [Some ''One'', Some ''Two'', Some ''Three'', Some ''Four'', Some ''Five'', Some '' Six '']"
  by (simp add: sixMessages_def exampleActivity_def)

lemma sixMessages_queries:
  "slice_last 5 (map queryOf (textsFor ''c1'' sixMessages))
     = [''two'', ''three'', ''four'', ''five'', ''six'']"
  unfolding sixMessages_texts by code_simp

section \<open>Urgency classification\<close>

text \<open>
  C4. \<open>detectSecurityLevel\<close> looks for the keywords of three tiers as substrings of the
  lower-cased text, critical first, then high, then medium, and answers with the first
  tier that has a keyword in the text, or low. Two texts that agree after lower-casing
  are classified alike. The three example texts are critical, medium and low.
\<close>

theorem detectSecurityLevel_tiers:
  "detectSecurityLevel q =
     (if \<exists>k \<in> set [''breach'', ''attack'', ''compromise'', ''malware'', ''ransomware'',
                     ''critical'', ''urgent'', ''emergency''].
           \<exists>pre post. toLowerCase q = pre @ k @ post then Critical
      else if \<exists>k \<in> set [''threat'', ''suspicious'', ''alert'', ''incident'', ''vulnerability'',
                          ''exploit''].
           \<exists>pre post. toLowerCase q = pre @ k @ post then High
      else if \<exists>k \<in> set [''security'', ''audit'', ''compliance'', ''policy'', ''review''].
           \<exists>pre post. toLowerCase q = pre @ k @ post then Medium
      else Low)
   \<and> (toLowerCase a = toLowerCase b \<longrightarrow> detectSecurityLevel a = detectSecurityLevel b)
   \<and> detectSecurityLevel (toLowerCase q) = detectSecurityLevel q
   \<and> detectSecurityLevel ''Ransomware attack detected'' = Critical
   \<and> detectSecurityLevel ''please review our audit policy'' = Medium
   \<and> detectSecurityLevel ''hello'' = Low"
proof -
  have tiers: "detectSecurityLevel q =
     (if \<exists>k \<in> set criticalKeywords. \<exists>pre post. toLowerCase q = pre @ k @ post then Critical
      else if \<exists>k \<in> set highKeywords. \<exists>pre post. toLowerCase q = pre @ k @ post then High
      else if \<exists>k \<in> set mediumKeywords. \<exists>pre post. toLowerCase q = pre @ k @ post then Medium
      else Low)"
    unfolding detectSecurityLevel_def Let_def list_ex_iff str_includes_iff by simp
  have same: "toLowerCase a = toLowerCase b \<longrightarrow> detectSecurityLevel a = detectSecurityLevel b"
    by (simp add: detectSecurityLevel_def)
  have lower: "detectSecurityLevel (toLowerCase q) = detectSecurityLevel q"
    by (simp add: detectSecurityLevel_def toLowerCase_idem)
  have e1: "detectSecurityLevel ''Ransomware attack detected'' = Critical" by code_simp
  have e2: "detectSecurityLevel ''please review our audit policy'' = Medium" by code_simp
  have e3: "detectSecurityLevel ''hello'' = Low" by code_simp
  from tiers same lower e1 e2 e3 show ?thesis
    unfolding criticalKeywords_def highKeywords_def mediumKeywords_def by blast
qed

theorem detectSecurityLevel_tiers_witness:
  "toLowerCase ''URGENT Review'' = toLowerCase ''urgent review''
   \<and> detectSecurityLevel ''URGENT Review'' = detectSecurityLevel ''urgent review''
   \<and> detectSecurityLevel ''urgent review'' = Critical"
proof -
  have h: "toLowerCase ''URGENT Review'' = toLowerCase ''urgent review''" by code_simp
  have c: "detectSecurityLevel ''urgent review'' = Critical" by code_simp
  from detectSecurityLevel_tiers [of "''urgent review''" "''URGENT Review''" "''urgent review''"] h c
  show ?thesis by blast
qed

section \<open>Session history\<close>

text \<open>
  C3. Take a conversation that has no session, and any history without eviction sweeps in
  which every update of that conversation carries a text (present and not empty), other
  conversations being updated in between at will. After N such updates, N at least 1, the
  session exists, its \<open>messageCount\<close> is N, and its \<open>previousQueries\<close> are the last
  min(N, 5) normalised texts in the order they came, so the oldest went first. In every
  manager that a history of updates, sweeps and preference changes builds from the new
  manager, the keys of the state map are distinct (one session for a conversation id),
  each session is stored under its own id, and no session has more than 5 queries.
\<close>

theorem update_counts_and_history:
  "((\<forall>op \<in> set ops. \<not> isCleanup op)
     \<and> (\<forall>t \<in> set (textsFor cid ops). truthy t)
     \<and> textsFor cid ops \<noteq> []
     \<and> getConversationState mgr0 cid = None
    \<longrightarrow> (\<exists>st. getConversationState (run ops mgr0) cid = Some st
            \<and> messageCount st = length (textsFor cid ops)
            \<and> length (previousQueries (context st)) = min (length (textsFor cid ops)) 5
            \<and> previousQueries (context st) = slice_last 5 (map queryOf (textsFor cid ops))))
   \<and> distinct (Map_keys (conversationStates (run ops' newConversationManager)))
   \<and> (\<forall>(k, st) \<in> set (conversationStates (run ops' newConversationManager)).
         conversationId st = k \<and> length (previousQueries (context st)) \<le> 5)"
proof -
  have A: "\<exists>st. getConversationState (run ops mgr0) cid = Some st
            \<and> messageCount st = length (textsFor cid ops)
            \<and> length (previousQueries (context st)) = min (length (textsFor cid ops)) 5
            \<and> previousQueries (context st) = slice_last 5 (map queryOf (textsFor cid ops))"
    if h: "\<forall>op \<in> set ops. \<not> isCleanup op" "\<forall>t \<in> set (textsFor cid ops). truthy t"
       "textsFor cid ops \<noteq> []" "getConversationState mgr0 cid = None"
  proof -
    from count_and_queries [OF h(1) h(2) h(4)] h(3)
    obtain st where st: "getConversationState (run ops mgr0) cid = Some st"
      "messageCount st = length (textsFor cid ops)"
      "previousQueries (context st) = slice_last 5 (map queryOf (textsFor cid ops))"
      by blast
    from st(3) have "length (previousQueries (context st)) = min (length (textsFor cid ops)) 5"
      by (simp add: slice_last_length min.commute)
    with st show ?thesis by blast
  qed
  have inv: "managerInvariant (run ops' newConversationManager)"
    by (rule invariant_run [OF invariant_new])
  from inv have B: "distinct (Map_keys (conversationStates (run ops' newConversationManager)))"
    unfolding managerInvariant_def by blast
  from inv have C: "\<forall>(k, st) \<in> set (conversationStates (run ops' newConversationManager)).
         conversationId st = k \<and> length (previousQueries (context st)) \<le> 5"
    by (auto simp: managerInvariant_def list_all_iff sessionInvariant_def)
  from A B C show ?thesis by blast
qed

theorem update_counts_and_history_witness:
  "list_all (\<lambda>op. \<not> isCleanup op) sixMessages
   \<and> list_all truthy (textsFor ''c1'' sixMessages)
   \<and> textsFor ''c1'' sixMessages \<noteq> []
   \<and> getConversationState newConversationManager ''c1'' = None
   \<and> (\<exists>st. getConversationState (run sixMessages newConversationManager) ''c1'' = Some st
          \<and> messageCount st = 6
          \<and> length (previousQueries (context st)) = 5
          \<and> previousQueries (context st) = [''two'', ''three'', ''four'', ''five'', ''six''])"
proof -
  have h1: "list_all (\<lambda>op. \<not> isCleanup op) sixMessages"
    by (simp add: sixMessages_def)
  have h2: "list_all truthy (textsFor ''c1'' sixMessages)"
    unfolding sixMessages_texts by (simp add: truthy_def)
  have h3: "textsFor ''c1'' sixMessages \<noteq> []"
    unfolding sixMessages_texts by simp
  have h4: "getConversationState newConversationManager ''c1'' = None"
    by (simp add: getConversationState_def newConversationManager_def Map_get_def)
  have len: "length (textsFor ''c1'' sixMessages) = 6"
    unfolding sixMessages_texts by simp
  from update_counts_and_history [of sixMessages "''c1''" newConversationManager "[]"]
       h1 h2 h3 h4
  obtain st where "getConversationState (run sixMessages newConversationManager) ''c1'' = Some st"
    "messageCount st = length (textsFor ''c1'' sixMessages)"
    "length (previousQueries (context st)) = min (length (textsFor ''c1'' sixMessages)) 5"
    "previousQueries (context st) = slice_last 5 (map queryOf (textsFor ''c1'' sixMessages))"
    unfolding list_all_iff by blast
  then have "getConversationState (run sixMessages newConversationManager) ''c1'' = Some st
          \<and> messageCount st = 6
          \<and> length (previousQueries (context st)) = 5
          \<and> previousQueries (context st) = [''two'', ''three'', ''four'', ''five'', ''six'']"
    unfolding len sixMessages_queries by simp
  with h1 h2 h3 h4 show ?thesis by blast
qed

section \<open>Eviction\<close>



section \<open>The two maps have the same keys\<close>

text \<open>
  C9. In every manager built by a history from the new manager, the state map and the
  reference map have the same keys in the same order, a conversation has a session exactly
  when it has a reference, and every reference handed out for a fanout belongs to a
  conversation with a session. An update puts its conversation id into both maps, and a
  sweep on maps with the same keys leaves maps with the same keys.
\<close>

theorem states_and_references_same_keys:
  "Map_keys (conversationStates (run ops newConversationManager))
     = Map_keys (conversationReferences (run ops newConversationManager))
   \<and> (getConversationState (run ops newConversationManager) cid = None
        \<longleftrightarrow> getConversationReference (run ops newConversationManager) cid = None)
   \<and> (\<forall>r \<in> set (getAllConversationReferences (run ops newConversationManager)).
         \<exists>k st. getConversationReference (run ops newConversationManager) k = Some r
              \<and> getConversationState (run ops newConversationManager) k = Some st)
   \<and> activity_conversation a
        \<in> set (Map_keys (conversationStates (snd (updateConversationState clock a tid mgr))))
   \<and> activity_conversation a
        \<in> set (Map_keys (conversationReferences (snd (updateConversationState clock a tid mgr))))
   \<and> (Map_keys (conversationStates mgr) = Map_keys (conversationReferences mgr) \<longrightarrow>
        Map_keys (conversationStates (snd (cleanupOldStates clock maxAgeHours mgr)))
          = Map_keys (conversationReferences (snd (cleanupOldStates clock maxAgeHours mgr))))"
proof -
  let ?m = "run ops newConversationManager"
  have inv: "managerInvariant ?m"
    by (rule invariant_run [OF invariant_new])
  note keys = invariant_same_keys [OF inv]
  have none: "getConversationState ?m cid = None \<longleftrightarrow> getConversationReference ?m cid = None"
    unfolding getConversationState_def getConversationReference_def Map_get_None_iff keys
    by (rule refl)
  have enum: "\<exists>k st. getConversationReference ?m k = Some r \<and> getConversationState ?m k = Some st"
    if r: "r \<in> set (getAllConversationReferences ?m)" for r
  proof -
    from r obtain k where k: "(k, r) \<in> set (conversationReferences ?m)"
      by (auto simp: getAllConversationReferences_def Map_values_def)
    from invariant_distinct_keys [OF inv] keys
    have "distinct (map fst (conversationReferences ?m))"
      by (simp add: Map_keys_def)
    with k have gr: "getConversationReference ?m k = Some r"
      by (simp add: getConversationReference_def Map_get_def)
    from k have "k \<in> set (Map_keys (conversationReferences ?m))"
      by (force simp: Map_keys_def)
    with keys have "k \<in> set (Map_keys (conversationStates ?m))" by simp
    then have "getConversationState ?m k \<noteq> None"
      by (simp add: getConversationState_def Map_get_None_iff)
    with gr show ?thesis by blast
  qed
  have cl: "Map_keys (conversationStates mgr) = Map_keys (conversationReferences mgr) \<longrightarrow>
        Map_keys (conversationStates (snd (cleanupOldStates clock maxAgeHours mgr)))
          = Map_keys (conversationReferences (snd (cleanupOldStates clock maxAgeHours mgr)))"
    using cleanup_keys [of clock maxAgeHours mgr] by simp
  from keys none enum update_keys_member [of a clock tid mgr] cl show ?thesis by blast
qed

theorem states_and_references_same_keys_witness:
  "Map_keys (conversationStates twoSessions) = Map_keys (conversationReferences twoSessions)
   \<and> Map_keys (conversationStates (snd (cleanupOldStates laterClock 24 twoSessions))) = [''new'']
   \<and> Map_keys (conversationReferences (snd (cleanupOldStates laterClock 24 twoSessions))) = [''new'']
   \<and> list_all (\<lambda>r. \<exists>k st. getConversationReference twoSessions k = Some r
                        \<and> getConversationState twoSessions k = Some st)
       (getAllConversationReferences twoSessions)"
proof -
  have k: "Map_keys (conversationStates (snd (cleanupOldStates laterClock 24 twoSessions))) = [''new'']"
    by code_simp
  from states_and_references_same_keys
         [of twoUpdates "''new''" "exampleActivity ''new'' ''u2'' ''hello''" laterClock None
             twoSessions 24] k
  show ?thesis unfolding twoSessions_def [symmetric] list_all_iff by metis
qed

section \<open>Notification preferences\<close>

lemma parse_22: "parseTimeString ''22:00'' = Num 2200" by code_simp

lemma parse_06: "parseTimeString ''06:00'' = Num 600" by code_simp





section \<open>Fanout\<close>

lemma deliveryLoop_filter:
  "deliveryLoop clock mgr adapter payload targetUsers refs =
     map (\<lambda>r. (r, adapter r))
       (filter (\<lambda>r. \<not> skippedByTarget targetUsers r \<and> \<not> skippedByPreference clock mgr payload r)
          refs)"
  by (induction refs) auto

lemma sendNotification_attempted:
  "map fst (deliveries (sendNotification clock mgr adapter payload targetUsers)) =
     filter (\<lambda>r. \<not> skippedByTarget targetUsers r \<and> \<not> skippedByPreference clock mgr payload r)
       (getAllConversationReferences mgr)"
  by (simp add: sendNotification_def Let_def deliveryLoop_filter comp_def)

text \<open>
  C10. In a broadcast (no list of target users, or an empty one) every stored reference
  without a user id (no user, or an empty id) gets a delivery, whatever the preferences
  say; a reference with a user id gets one exactly when \<open>shouldNotifyUser\<close> accepts that
  user. With a non-empty list of target users a reference without a user id gets none.
\<close>

theorem fanout_without_user_id:
  "((targetUsers = None \<or> targetUsers = Some [])
      \<and> r \<in> set (getAllConversationReferences mgr)
      \<and> (referenceUserId r = None \<or> referenceUserId r = Some [])
     \<longrightarrow> r \<in> set (map fst (deliveries (sendNotification clock mgr adapter payload targetUsers))))
   \<and> ((targetUsers = None \<or> targetUsers = Some [])
      \<and> r \<in> set (getAllConversationReferences mgr)
      \<and> referenceUserId r = Some uid \<and> uid \<noteq> []
     \<longrightarrow> (r \<in> set (map fst (deliveries (sendNotification clock mgr adapter payload targetUsers)))
          \<longleftrightarrow> shouldNotifyUser clock mgr uid (typeName (payload_type payload))
                (levelName (payload_priority payload))))
   \<and> (targetUsers = Some targets \<and> targets \<noteq> []
      \<and> (referenceUserId r = None \<or> referenceUserId r = Some [])
     \<longrightarrow> r \<notin> set (map fst (deliveries (sendNotification clock mgr adapter payload targetUsers))))"
  unfolding sendNotification_attempted
  by (auto simp: skippedByTarget_def skippedByPreference_def)

theorem fanout_without_user_id_witness:
  "anonymousReference \<in> set (getAllConversationReferences fanoutManager)
   \<and> referenceUserId anonymousReference = None
   \<and> anonymousReference
       \<in> set (map fst (deliveries
            (sendNotification (clockAt 23 30) fanoutManager (\<lambda>r. True) highUpdate None)))
   \<and> userReference ''c1'' ''u1'' \<in> set (getAllConversationReferences fanoutManager)
   \<and> referenceUserId (userReference ''c1'' ''u1'') = Some ''u1''
   \<and> \<not> shouldNotifyUser (clockAt 23 30) fanoutManager ''u1'' (typeName (payload_type highUpdate))
         (levelName (payload_priority highUpdate))
   \<and> userReference ''c1'' ''u1''
       \<notin> set (map fst (deliveries
            (sendNotification (clockAt 23 30) fanoutManager (\<lambda>r. True) highUpdate None)))
   \<and> referenceUserId (userReference ''c9'' []) = Some []
   \<and> userReference ''c9'' []
       \<in> set (map fst (deliveries
            (sendNotification (clockAt 23 30) fanoutManager (\<lambda>r. True) highUpdate (Some []))))
   \<and> anonymousReference
       \<notin> set (map fst (deliveries
            (sendNotification (clockAt 23 30) fanoutManager (\<lambda>r. True) highUpdate
               (Some [''u1'']))))"
proof -
  have m0: "anonymousReference \<in> set (getAllConversationReferences fanoutManager)" by code_simp
  have m1: "userReference ''c1'' ''u1'' \<in> set (getAllConversationReferences fanoutManager)"
    by code_simp
  have m9: "userReference ''c9'' [] \<in> set (getAllConversationReferences fanoutManager)"
    by code_simp
  have i0: "referenceUserId anonymousReference = None" by code_simp
  have i1: "referenceUserId (userReference ''c1'' ''u1'') = Some ''u1''" by code_simp
  have i9: "referenceUserId (userReference ''c9'' []) = Some []" by code_simp
  have no: "\<not> shouldNotifyUser (clockAt 23 30) fanoutManager ''u1''
                (typeName (payload_type highUpdate)) (levelName (payload_priority highUpdate))"
    by code_simp
  have ne: "''u1'' \<noteq> []" "[''u1''] \<noteq> []" by simp_all
  note t = fanout_without_user_id [where clock = "clockAt 23 30" and mgr = fanoutManager
      and adapter = "\<lambda>r. True" and payload = highUpdate]
  have a: "anonymousReference
       \<in> set (map fst (deliveries
            (sendNotification (clockAt 23 30) fanoutManager (\<lambda>r. True) highUpdate None)))"
    using t [where targetUsers = None and r = anonymousReference] m0 i0 by blast
  have b: "userReference ''c1'' ''u1''
       \<notin> set (map fst (deliveries
            (sendNotification (clockAt 23 30) fanoutManager (\<lambda>r. True) highUpdate None)))"
    using t [where targetUsers = None and r = "userReference ''c1'' ''u1''" and uid = "''u1''"]
      m1 i1 no ne by blast
  have c: "userReference ''c9'' []
       \<in> set (map fst (deliveries
            (sendNotification (clockAt 23 30) fanoutManager (\<lambda>r. True) highUpdate (Some []))))"
    using t [where targetUsers = "Some []" and r = "userReference ''c9'' []"] m9 i9 by blast
  have d: "anonymousReference
       \<notin> set (map fst (deliveries
            (sendNotification (clockAt 23 30) fanoutManager (\<lambda>r. True) highUpdate
               (Some [''u1'']))))"
    using t [where targetUsers = "Some [''u1'']" and r = anonymousReference
        and targets = "[''u1'']"] i0 ne by blast
  from m0 i0 a m1 i1 no b i9 c d show ?thesis by blast
qed

section \<open>Prompt enhancement\<close>

lemma blankLine_nonempty: "blankLine \<noteq> []"
  by (simp add: blankLine_def)

lemma enhance_Some:
  assumes "getConversationState mgr cid = Some st" "previousQueries (context st) \<noteq> []"
  shows "enhancePromptWithContext mgr prompt cid =
     prompt
     @ (case currentTopic (context st) of
          Some topic \<Rightarrow> if topic \<noteq> [] then topicLine topic else []
        | None \<Rightarrow> [])
     @ (if 1 < length (previousQueries (context st))
        then recentLine (previousQueries (context st)) else [])
     @ (case userPreferences (context st) of
          Some p \<Rightarrow> preferenceLine (detailLevel p)
        | None \<Rightarrow> [])"
  using assms
  by (auto simp: enhancePromptWithContext_def getConversationState_def Let_def
      split: option.splits)

lemma topicLabels_nonempty: "topic \<in> set topicLabels \<Longrightarrow> topic \<noteq> []"
  by (auto simp: topicLabels_def topics_def)

lemma reachable_session:
  assumes "getConversationState (run ops newConversationManager) cid = Some st"
  shows "sessionInvariant (cid, st)"
proof -
  have inv: "managerInvariant (run ops newConversationManager)"
    by (rule invariant_run [OF invariant_new])
  from assms have "(cid, st) \<in> set (conversationStates (run ops newConversationManager))"
    by (simp add: getConversationState_def Map_get_def map_of_SomeD)
  with inv show ?thesis
    unfolding managerInvariant_def list_all_iff by blast
qed

text \<open>
  C5, as the code has it. \<open>enhancePromptWithContext\<close> returns the prompt unchanged when
  the conversation has no session or the session has no stored query. Otherwise it returns
  the prompt followed by: the topic line whenever the session has a topic (any label that
  is not empty; there is no exception for a general topic); the line of recent queries, the
  last up to 3 stored ones joined by a comma and a space, exactly when more than one query
  is stored; and the detail-level directive when the session has preferences. With 2 stored
  queries the prompt is a strict prefix of the result. In every session that a history
  builds from the new manager and that has a stored query, the topic is one of the seven
  labels or the default \<open>general security\<close> and the preferences are there, so the topic
  line and the directive are always appended.
\<close>

theorem enhancePromptWithContext_shape:
  "(getConversationState mgr cid = None \<longrightarrow> enhancePromptWithContext mgr prompt cid = prompt)
   \<and> (getConversationState mgr cid = Some st \<and> previousQueries (context st) = []
        \<longrightarrow> enhancePromptWithContext mgr prompt cid = prompt)
   \<and> (getConversationState mgr cid = Some st \<and> previousQueries (context st) \<noteq> []
        \<longrightarrow> enhancePromptWithContext mgr prompt cid =
              prompt
              @ (case currentTopic (context st) of
                   Some topic \<Rightarrow> if topic \<noteq> [] then topicLine topic else []
                 | None \<Rightarrow> [])
              @ (if 1 < length (previousQueries (context st))
                 then blankLine @ ''Recent discussion topics: ''
                      @ join '', '' (slice_last 3 (previousQueries (context st)))
                 else [])
              @ (case userPreferences (context st) of
                   Some p \<Rightarrow> preferenceLine (detailLevel p)
                 | None \<Rightarrow> []))
   \<and> (getConversationState mgr cid = Some st \<and> length (previousQueries (context st)) = 2
        \<longrightarrow> strict_prefix prompt (enhancePromptWithContext mgr prompt cid))
   \<and> (getConversationState (run ops newConversationManager) cid = Some st'
        \<and> previousQueries (context st') \<noteq> []
        \<longrightarrow> (\<exists>topic. currentTopic (context st') = Some topic \<and> topic \<in> set topicLabels
               \<and> enhancePromptWithContext (run ops newConversationManager) prompt cid =
                    prompt @ topicLine topic
                    @ (if 1 < length (previousQueries (context st'))
                       then recentLine (previousQueries (context st')) else [])
                    @ preferenceLine Detailed))"
proof -
  have none: "getConversationState mgr cid = None \<longrightarrow> enhancePromptWithContext mgr prompt cid = prompt"
    by (simp add: enhancePromptWithContext_def getConversationState_def)
  have empty: "getConversationState mgr cid = Some st \<and> previousQueries (context st) = []
        \<longrightarrow> enhancePromptWithContext mgr prompt cid = prompt"
    by (simp add: enhancePromptWithContext_def getConversationState_def)
  note some = enhance_Some [of mgr cid st prompt]
  have two: "strict_prefix prompt (enhancePromptWithContext mgr prompt cid)"
    if h: "getConversationState mgr cid = Some st" "length (previousQueries (context st)) = 2"
  proof -
    from h(2) have ne: "previousQueries (context st) \<noteq> []" by auto
    from h(2) have "recentLine (previousQueries (context st)) \<noteq> []"
      by (simp add: recentLine_def blankLine_nonempty)
    with h(2) show ?thesis
      unfolding enhance_Some [OF h(1) ne] by (simp add: strict_prefix_def)
  qed
  have reach: "\<exists>topic. currentTopic (context st') = Some topic \<and> topic \<in> set topicLabels
               \<and> enhancePromptWithContext (run ops newConversationManager) prompt cid =
                    prompt @ topicLine topic
                    @ (if 1 < length (previousQueries (context st'))
                       then recentLine (previousQueries (context st')) else [])
                    @ preferenceLine Detailed"
    if h: "getConversationState (run ops newConversationManager) cid = Some st'"
          "previousQueries (context st') \<noteq> []"
  proof -
    from reachable_session [OF h(1)] h(2)
    obtain topic where t: "currentTopic (context st') = Some topic" "topic \<in> set topicLabels"
      and p: "userPreferences (context st') = Some \<lparr>detailLevel = Detailed, responseFormat = Text\<rparr>"
      by (auto simp: sessionInvariant_def)
    from t(2) have "topic \<noteq> []" by (rule topicLabels_nonempty)
    with t p show ?thesis
      unfolding enhance_Some [OF h] by simp
  qed
  from none empty some two reach show ?thesis
    unfolding recentLine_def by blast
qed

text \<open>
  The claim's exception for a general topic fails. After the single message \<open>hello\<close> the
  topic of the session is the default label \<open>general security\<close>, and the topic line is
  appended with it. The same holds for a session, built by hand, whose topic is the very
  string \<open>general\<close>.
\<close>

theorem enhancePromptWithContext_general_topic_counterexample:
  "topicOf oneHello ''c1'' = Some ''general security''
   \<and> enhancePromptWithContext oneHello ''hi'' ''c1'' =
       ''hi'' @ blankLine @ ''Context: This conversation is focusing on general security.''
       @ blankLine @ ''User preference: Provide detailed responses.''
   \<and> topicOf generalTopicManager ''c1'' = Some ''general''
   \<and> enhancePromptWithContext generalTopicManager ''hi'' ''c1'' =
       ''hi'' @ blankLine @ ''Context: This conversation is focusing on general.''
       @ blankLine @ ''User preference: Provide detailed responses.''"
  by code_simp

theorem enhancePromptWithContext_shape_witness:
  "getConversationState newConversationManager ''c1'' = None
   \<and> enhancePromptWithContext newConversationManager ''hi'' ''c1'' = ''hi''
   \<and> (\<exists>st. getConversationState twoQuestions ''c1'' = Some st
          \<and> length (previousQueries (context st)) = 2)
   \<and> strict_prefix ''hi'' (enhancePromptWithContext twoQuestions ''hi'' ''c1'')
   \<and> enhancePromptWithContext twoQuestions ''hi'' ''c1'' =
       ''hi'' @ blankLine @ ''Context: This conversation is focusing on network security.''
       @ blankLine @ ''Recent discussion topics: any malware today?, and the firewall?''
       @ blankLine @ ''User preference: Provide detailed responses.''"
proof -
  have n: "getConversationState newConversationManager ''c1'' = None" by code_simp
  have "case getConversationState twoQuestions ''c1'' of
          Some st \<Rightarrow> length (previousQueries (context st)) = 2
        | None \<Rightarrow> False"
    by code_simp
  then obtain st where st: "getConversationState twoQuestions ''c1'' = Some st"
    "length (previousQueries (context st)) = 2"
    by (auto split: option.splits)
  have a: "enhancePromptWithContext newConversationManager ''hi'' ''c1'' = ''hi''"
    using enhancePromptWithContext_shape [where mgr = newConversationManager and cid = "''c1''"
        and prompt = "''hi''"] n by blast
  have b: "strict_prefix ''hi'' (enhancePromptWithContext twoQuestions ''hi'' ''c1'')"
    using enhancePromptWithContext_shape [where mgr = twoQuestions and cid = "''c1''"
        and prompt = "''hi''" and st = st] st by blast
  have c: "enhancePromptWithContext twoQuestions ''hi'' ''c1'' =
       ''hi'' @ blankLine @ ''Context: This conversation is focusing on network security.''
       @ blankLine @ ''Recent discussion topics: any malware today?, and the firewall?''
       @ blankLine @ ''User preference: Provide detailed responses.''"
    by code_simp
  from n a st b c show ?thesis by blast
qed

section \<open>Backend failures in the chat\<close>








section \<open>Required fields of the HTTP endpoints\<close>

text \<open>
  C7, as the code has it. A request to \<open>/api/securityAlert\<close> whose \<open>id\<close>, \<open>title\<close> or
  \<open>description\<close> is missing or empty is answered with status 400 and the body
  \<open>{success: false, message: "Missing required fields: id, title, description"}\<close>, with no
  effect and the module state unchanged. A POST to \<open>/api/notification\<close> whose \<open>prompt\<close>
  is missing or empty is answered with status 400 and the body
  \<open>{error: "Missing required 'prompt' field in request body"}\<close>: with no effect when the
  components are set up already, and after setting them up when that is still to do and
  succeeds.
\<close>

theorem missing_fields_rejected:
  "((\<not> truthy (req_id alertRequest) \<or> \<not> truthy (req_title alertRequest)
      \<or> \<not> truthy (req_description alertRequest))
     \<longrightarrow> securityAlertHandler env clock adapter server (Parsed alertRequest)
           = (\<lparr>status = 400, body = missingAlertFieldsBody, headers = jsonHeaders\<rparr>, [], server))
   \<and> (\<not> truthy (notif_prompt request) \<and> botInitializer server
     \<longrightarrow> httpTrigger env backend adapter server ''POST'' (Parsed request)
           = (\<lparr>status = 400, body = missingPromptBody, headers = jsonHeaders\<rparr>, [], server))
   \<and> (\<not> truthy (notif_prompt request) \<and> \<not> botInitializer server
       \<and> fst (initializeComponents env server) = Return ()
     \<longrightarrow> httpTrigger env backend adapter server ''POST'' (Parsed request)
           = (\<lparr>status = 400, body = missingPromptBody, headers = jsonHeaders\<rparr>,
              [InitializeComponents], server\<lparr>botInitializer := True\<rparr>))"
proof -
  have a: "securityAlertHandler env clock adapter server (Parsed alertRequest)
           = (\<lparr>status = 400, body = missingAlertFieldsBody, headers = jsonHeaders\<rparr>, [], server)"
    if "\<not> truthy (req_id alertRequest) \<or> \<not> truthy (req_title alertRequest)
      \<or> \<not> truthy (req_description alertRequest)"
    using that by (auto simp: securityAlertHandler_def missingAlertFieldsBody_def)
  have b: "httpTrigger env backend adapter server ''POST'' (Parsed request)
           = (\<lparr>status = 400, body = missingPromptBody, headers = jsonHeaders\<rparr>, [], server)"
    if "\<not> truthy (notif_prompt request)" "botInitializer server"
    using that by (simp add: httpTrigger_def initializeComponents_def missingPromptBody_def)
  have c: "httpTrigger env backend adapter server ''POST'' (Parsed request)
           = (\<lparr>status = 400, body = missingPromptBody, headers = jsonHeaders\<rparr>,
              [InitializeComponents], server\<lparr>botInitializer := True\<rparr>)"
    if "\<not> truthy (notif_prompt request)" "\<not> botInitializer server"
       "fst (initializeComponents env server) = Return ()"
    using that
    by (auto simp: httpTrigger_def initializeComponents_def missingPromptBody_def
        split: result.splits)
  from a b c show ?thesis by blast
qed

theorem missing_fields_rejected_witness:
  "\<not> truthy (req_id alertWithoutId)
   \<and> securityAlertHandler emptyEnvironment (exampleClock 1000) alwaysDelivers freshServer
        (Parsed alertWithoutId)
       = (\<lparr>status = 400, body = missingAlertFieldsBody, headers = jsonHeaders\<rparr>, [], freshServer)
   \<and> \<not> truthy (notif_prompt notificationWithoutPrompt)
   \<and> botInitializer (runningServer newConversationManager)
   \<and> httpTrigger emptyEnvironment failingThreadBackend alwaysDelivers
        (runningServer newConversationManager) ''POST'' (Parsed notificationWithoutPrompt)
       = (\<lparr>status = 400, body = missingPromptBody, headers = jsonHeaders\<rparr>, [],
          runningServer newConversationManager)
   \<and> \<not> botInitializer freshServer
   \<and> fst (initializeComponents fullEnvironment freshServer) = Return ()
   \<and> httpTrigger fullEnvironment failingThreadBackend alwaysDelivers freshServer ''POST''
        (Parsed notificationWithoutPrompt)
       = (\<lparr>status = 400, body = missingPromptBody, headers = jsonHeaders\<rparr>,
          [InitializeComponents], freshServer\<lparr>botInitializer := True\<rparr>)"
proof -
  have h1: "\<not> truthy (req_id alertWithoutId)" by code_simp
  have h2: "\<not> truthy (notif_prompt notificationWithoutPrompt)" by code_simp
  have h3: "botInitializer (runningServer newConversationManager)"
    by (simp add: runningServer_def)
  have h4: "\<not> botInitializer freshServer" by (simp add: freshServer_def)
  have h5: "fst (initializeComponents fullEnvironment freshServer) = Return ()" by code_simp
  note t = missing_fields_rejected [where alertRequest = alertWithoutId
      and request = notificationWithoutPrompt and backend = failingThreadBackend
      and adapter = alwaysDelivers and clock = "exampleClock 1000"]
  from t [where env = emptyEnvironment and server = freshServer] h1
  have a: "securityAlertHandler emptyEnvironment (exampleClock 1000) alwaysDelivers freshServer
        (Parsed alertWithoutId)
       = (\<lparr>status = 400, body = missingAlertFieldsBody, headers = jsonHeaders\<rparr>, [], freshServer)"
    by blast
  from t [where env = emptyEnvironment and server = "runningServer newConversationManager"] h2 h3
  have b: "httpTrigger emptyEnvironment failingThreadBackend alwaysDelivers
        (runningServer newConversationManager) ''POST'' (Parsed notificationWithoutPrompt)
       = (\<lparr>status = 400, body = missingPromptBody, headers = jsonHeaders\<rparr>, [],
          runningServer newConversationManager)"
    by blast
  from t [where env = fullEnvironment and server = freshServer] h2 h4 h5
  have c: "httpTrigger fullEnvironment failingThreadBackend alwaysDelivers freshServer ''POST''
        (Parsed notificationWithoutPrompt)
       = (\<lparr>status = 400, body = missingPromptBody, headers = jsonHeaders\<rparr>,
          [InitializeComponents], freshServer\<lparr>botInitializer := True\<rparr>)"
    by blast
  from h1 a h2 h3 b h4 h5 c show ?thesis by blast
qed

text \<open>
  The body of the 400 answer of \<open>/api/securityAlert\<close> has the fields \<open>success\<close> and
  \<open>message\<close> and no field \<open>error\<close>, and its message lists the three required fields
  whichever is missing: here the request lacks only its \<open>id\<close>.
\<close>

theorem securityAlert_missing_field_body_counterexample:
  "\<not> truthy (req_id alertWithoutId)
   \<and> status (fst (securityAlertHandler fullEnvironment (exampleClock 1000) alwaysDelivers
                     freshServer (Parsed alertWithoutId))) = 400
   \<and> body (fst (securityAlertHandler fullEnvironment (exampleClock 1000) alwaysDelivers
                   freshServer (Parsed alertWithoutId)))
       = [(''success'', JBool False),
          (''message'', JString ''Missing required fields: id, title, description'')]
   \<and> map_of (body (fst (securityAlertHandler fullEnvironment (exampleClock 1000) alwaysDelivers
                           freshServer (Parsed alertWithoutId)))) ''error'' = None"
  by code_simp

section \<open>The recipient count of a security alert\<close>

text \<open>
  C1. \<open>sendNotification\<close> starts a delivery for every reference that passes the two
  checks, whichever deliveries fail: the references it starts are the filtered list, and
  the fate of each is what the adapter says. It returns nothing. With three sessions, all
  three passing, and the delivery to the second one failing, the handler of
  \<open>/api/securityAlert\<close> starts the three deliveries and answers \<open>recipientCount: 3\<close>,
  the number of sessions active in the last 24 hours; it answers 3 as well when the target
  list names a user nobody has and no delivery is started.
\<close>

theorem securityAlert_recipientCount_is_session_count:
  "map fst (deliveries (sendNotification clock mgr adapter payload targets))
     = filter (\<lambda>r. \<not> skippedByTarget targets r \<and> \<not> skippedByPreference clock mgr payload r)
         (getAllConversationReferences mgr)
   \<and> map snd (deliveries (sendNotification clock mgr adapter payload targets))
     = map adapter (map fst (deliveries (sendNotification clock mgr adapter payload targets)))
   \<and> map fst (deliveries (sendSecurityAlert (exampleClock 2000) threeSessions (deliversExcept ''c2'')
             \<lparr>alert_id = ''a1'', alert_title = ''T'', alert_description = ''D'',
              severity = Medium, category = Threat, timestamp = 2000,
              source = ''Security System'', affectedSystems = None,
              recommendedActions = None\<rparr> None))
     = [userReference ''c1'' ''u1'', userReference ''c2'' ''u2'', userReference ''c3'' ''u3'']
   \<and> map snd (deliveries (sendSecurityAlert (exampleClock 2000) threeSessions (deliversExcept ''c2'')
             \<lparr>alert_id = ''a1'', alert_title = ''T'', alert_description = ''D'',
              severity = Medium, category = Threat, timestamp = 2000,
              source = ''Security System'', affectedSystems = None,
              recommendedActions = None\<rparr> None))
     = [True, False, True]
   \<and> securityAlertHandler fullEnvironment (exampleClock 2000) (deliversExcept ''c2'')
        (runningServer threeSessions) (Parsed alertA1)
     = (\<lparr>status = 200,
         body = [(''success'', JBool True),
                 (''message'', JString ''Security alert sent successfully''),
                 (''recipientCount'', JNumber 3),
                 (''alertId'', JString ''a1'')],
         headers = jsonHeaders\<rparr>,
        [Deliver (userReference ''c1'' ''u1''), Deliver (userReference ''c2'' ''u2''),
         Deliver (userReference ''c3'' ''u3'')],
        runningServer threeSessions)
   \<and> securityAlertHandler fullEnvironment (exampleClock 2000) alwaysDelivers
        (runningServer threeSessions) (Parsed (alertA1\<lparr>req_targetUsers := Some [''nobody'']\<rparr>))
     = (\<lparr>status = 200,
         body = [(''success'', JBool True),
                 (''message'', JString ''Security alert sent successfully''),
                 (''recipientCount'', JNumber 3),
                 (''alertId'', JString ''a1'')],
         headers = jsonHeaders\<rparr>,
        [],
        runningServer threeSessions)"
proof -
  have a: "map fst (deliveries (sendNotification clock mgr adapter payload targets))
     = filter (\<lambda>r. \<not> skippedByTarget targets r \<and> \<not> skippedByPreference clock mgr payload r)
         (getAllConversationReferences mgr)"
    by (rule sendNotification_attempted)
  have b: "map snd (deliveries (sendNotification clock mgr adapter payload targets))
     = map adapter (map fst (deliveries (sendNotification clock mgr adapter payload targets)))"
    by (simp add: sendNotification_def Let_def deliveryLoop_filter comp_def)
  have c: "map fst (deliveries (sendSecurityAlert (exampleClock 2000) threeSessions (deliversExcept ''c2'')
             \<lparr>alert_id = ''a1'', alert_title = ''T'', alert_description = ''D'',
              severity = Medium, category = Threat, timestamp = 2000,
              source = ''Security System'', affectedSystems = None,
              recommendedActions = None\<rparr> None))
     = [userReference ''c1'' ''u1'', userReference ''c2'' ''u2'', userReference ''c3'' ''u3'']"
    by code_simp
  have d: "map snd (deliveries (sendSecurityAlert (exampleClock 2000) threeSessions (deliversExcept ''c2'')
             \<lparr>alert_id = ''a1'', alert_title = ''T'', alert_description = ''D'',
              severity = Medium, category = Threat, timestamp = 2000,
              source = ''Security System'', affectedSystems = None,
              recommendedActions = None\<rparr> None))
     = [True, False, True]"
    by code_simp
  have e: "securityAlertHandler fullEnvironment (exampleClock 2000) (deliversExcept ''c2'')
        (runningServer threeSessions) (Parsed alertA1)
     = (\<lparr>status = 200,
         body = [(''success'', JBool True),
                 (''message'', JString ''Security alert sent successfully''),
                 (''recipientCount'', JNumber 3),
                 (''alertId'', JString ''a1'')],
         headers = jsonHeaders\<rparr>,
        [Deliver (userReference ''c1'' ''u1''), Deliver (userReference ''c2'' ''u2''),
         Deliver (userReference ''c3'' ''u3'')],
        runningServer threeSessions)"
    by code_simp
  have f: "securityAlertHandler fullEnvironment (exampleClock 2000) alwaysDelivers
        (runningServer threeSessions) (Parsed (alertA1\<lparr>req_targetUsers := Some [''nobody'']\<rparr>))
     = (\<lparr>status = 200,
         body = [(''success'', JBool True),
                 (''message'', JString ''Security alert sent successfully''),
                 (''recipientCount'', JNumber 3),
                 (''alertId'', JString ''a1'')],
         headers = jsonHeaders\<rparr>,
        [],
        runningServer threeSessions)"
    by code_simp
  from a b c d e f show ?thesis by blast
qed

theorem securityAlert_recipientCount_is_session_count_witness:
  "map fst (deliveries (sendNotification (exampleClock 2000) threeSessions (deliversExcept ''c2'')
                          highUpdate None))
     = [userReference ''c1'' ''u1'', userReference ''c2'' ''u2'', userReference ''c3'' ''u3'']
   \<and> map snd (deliveries (sendNotification (exampleClock 2000) threeSessions (deliversExcept ''c2'')
                          highUpdate None))
     = [True, False, True]"
proof -
  have f: "filter (\<lambda>r. \<not> skippedByTarget None r
                        \<and> \<not> skippedByPreference (exampleClock 2000) threeSessions highUpdate r)
             (getAllConversationReferences threeSessions)
     = [userReference ''c1'' ''u1'', userReference ''c2'' ''u2'', userReference ''c3'' ''u3'']"
    by code_simp
  have m: "map (deliversExcept ''c2'')
             [userReference ''c1'' ''u1'', userReference ''c2'' ''u2'', userReference ''c3'' ''u3'']
     = [True, False, True]"
    by code_simp
  note t = securityAlert_recipientCount_is_session_count
         [where clock = "exampleClock 2000" and mgr = threeSessions
            and adapter = "deliversExcept ''c2''" and payload = highUpdate and targets = None]
  from t have a: "map fst (deliveries (sendNotification (exampleClock 2000) threeSessions
                      (deliversExcept ''c2'') highUpdate None))
     = filter (\<lambda>r. \<not> skippedByTarget None r
                     \<and> \<not> skippedByPreference (exampleClock 2000) threeSessions highUpdate r)
         (getAllConversationReferences threeSessions)"
    by (rule conjunct1)
  from t have b: "map snd (deliveries (sendNotification (exampleClock 2000) threeSessions
                      (deliversExcept ''c2'') highUpdate None))
     = map (deliversExcept ''c2'')
         (map fst (deliveries (sendNotification (exampleClock 2000) threeSessions
                      (deliversExcept ''c2'') highUpdate None)))"
    by blast
  show ?thesis by (simp only: b a f m)
qed

end
